theory Spec2Isabelle
  imports Main "HOL-Library.Sublist"
begin

section \<open>Python values and strings\<close>

text \<open>
  A record of the pipeline is a Python dict from field names to cell values. The values
  modelled are \<open>None\<close>, booleans (the flag \<open>_CODIGO_MATERIAL_FROM_EXCEL\<close>) and strings;
  numbers and datetime objects are not modelled. A string is a list of characters with
  code points below 256 (Latin-1), which holds the accented letters of the Spanish column
  headers.
\<close>

datatype pyval = PyNone | PyBool bool | PyStr string

datatype error = AttributeError

type_synonym registro = "string \<rightharpoonup> pyval"

text \<open>Truth value of a Python object (\<open>if v:\<close>, \<open>not v\<close>, \<open>bool(v)\<close>).\<close>

fun truthy :: "pyval \<Rightarrow> bool" where
  "truthy PyNone = False"
| "truthy (PyBool b) = b"
| "truthy (PyStr s) = (s \<noteq> [])"

text \<open>\<open>str(v)\<close>.\<close>

fun py_str :: "pyval \<Rightarrow> string" where
  "py_str PyNone = ''None''"
| "py_str (PyBool b) = (if b then ''True'' else ''False'')"
| "py_str (PyStr s) = s"

text \<open>\<open>d.get(k, default)\<close>.\<close>

definition dict_get :: "registro \<Rightarrow> string \<Rightarrow> pyval \<Rightarrow> pyval" where
  "dict_get r k d = (case r k of Some v \<Rightarrow> v | None \<Rightarrow> d)"

definition ascii_mayusculas :: string where
  "ascii_mayusculas = ''ABCDEFGHIJKLMNOPQRSTUVWXYZ''"

definition ascii_minusculas :: string where
  "ascii_minusculas = ''abcdefghijklmnopqrstuvwxyz''"

text \<open>
  The cased letters above ASCII: the capitals from code point 0xC0 to 0xDE without the
  multiplication sign 0xD7, and the small letters 0x20 above them.
\<close>

definition latin1_mayusculas :: string where
  "latin1_mayusculas =
     [CHR 0xC0, CHR 0xC1, CHR 0xC2, CHR 0xC3, CHR 0xC4, CHR 0xC5, CHR 0xC6, CHR 0xC7,
      CHR 0xC8, CHR 0xC9, CHR 0xCA, CHR 0xCB, CHR 0xCC, CHR 0xCD, CHR 0xCE, CHR 0xCF,
      CHR 0xD0, CHR 0xD1, CHR 0xD2, CHR 0xD3, CHR 0xD4, CHR 0xD5, CHR 0xD6, CHR 0xD8,
      CHR 0xD9, CHR 0xDA, CHR 0xDB, CHR 0xDC, CHR 0xDD, CHR 0xDE]"

definition latin1_minusculas :: string where
  "latin1_minusculas =
     [CHR 0xE0, CHR 0xE1, CHR 0xE2, CHR 0xE3, CHR 0xE4, CHR 0xE5, CHR 0xE6, CHR 0xE7,
      CHR 0xE8, CHR 0xE9, CHR 0xEA, CHR 0xEB, CHR 0xEC, CHR 0xED, CHR 0xEE, CHR 0xEF,
      CHR 0xF0, CHR 0xF1, CHR 0xF2, CHR 0xF3, CHR 0xF4, CHR 0xF5, CHR 0xF6, CHR 0xF8,
      CHR 0xF9, CHR 0xFA, CHR 0xFB, CHR 0xFC, CHR 0xFD, CHR 0xFE]"

text \<open>\<open>str.lower()\<close>, which acts character by character on these strings.\<close>

definition lower_c :: "char \<Rightarrow> char" where
  "lower_c c = (case map_of (zip (ascii_mayusculas @ latin1_mayusculas)
                                 (ascii_minusculas @ latin1_minusculas)) c of
                  Some d \<Rightarrow> d | None \<Rightarrow> c)"

definition lower :: "string \<Rightarrow> string" where
  "lower s = map lower_c s"

text \<open>
  \<open>str.upper()\<close>. The sharp s (0xDF) becomes SS. The capitals of the micro sign (0xB5)
  and of y with diaeresis (0xFF) have code points above 255: these two characters are
  left as they are.
\<close>

definition upper_c :: "char \<Rightarrow> char" where
  "upper_c c = (case map_of (zip (ascii_minusculas @ latin1_minusculas)
                                 (ascii_mayusculas @ latin1_mayusculas)) c of
                  Some d \<Rightarrow> d | None \<Rightarrow> c)"

definition upper :: "string \<Rightarrow> string" where
  "upper s = concat (map (\<lambda>c. if c = CHR 0xDF then ''SS'' else [upper_c c]) s)"

text \<open>The characters \<open>str.strip()\<close> removes: those for which \<open>str.isspace\<close> holds.\<close>

definition is_space :: "char \<Rightarrow> bool" where
  "is_space c = (c \<in> set [CHR 0x09, CHR 0x0A, CHR 0x0B, CHR 0x0C, CHR 0x0D, CHR 0x1C,
                           CHR 0x1D, CHR 0x1E, CHR 0x1F, CHR '' '', CHR 0x85, CHR 0xA0])"

definition strip :: "string \<Rightarrow> string" where
  "strip s = rev (dropWhile is_space (rev (dropWhile is_space s)))"

definition is_digit :: "char \<Rightarrow> bool" where
  "is_digit c = (c \<in> set ''0123456789'')"

section \<open>Database reconciliation of norm records\<close>

text \<open>
  \<open>TXTNormaGenerator._escribir_txt_norma\<close> (generadores/txt-norma), the body of the loop
  over the records. The reference database is an external
  collaborator: its four read operations are parameters. The repository lookups absorb
  their own failures and return the empty string, and \<open>_consultar_norma_oracle\<close> returns
  an empty dict on failure, so all of them are total. A database row is an association
  list from column names to values.
\<close>

record repositorio =
  oracle_disponible :: bool
  obtener_fid_desde_codigo_operativo :: "string \<Rightarrow> string"
  obtener_fid_desde_enlace :: "string \<Rightarrow> string"
  consultar_norma_oracle :: "string \<Rightarrow> (string \<times> pyval) list"

definition campos_orden :: "string list" where
  "campos_orden = [''NORMA'', ''GRUPO'', ''CIRCUITO'', ''CODIGO_TRAFO'', ''MACRONORMA'',
                   ''CANTIDAD'', ''TIPO_ADECUACION'']"

text \<open>\<open>str(v or '').strip()\<close>.\<close>

definition str_o_vacio :: "pyval \<Rightarrow> string" where
  "str_o_vacio v = strip (py_str (if truthy v then v else PyStr ''''))"

text \<open>\<open>str(datos_bd.get(campo, '') or '').strip()\<close>.\<close>

definition val_bd :: "(string \<times> pyval) list \<Rightarrow> string \<Rightarrow> string" where
  "val_bd datos_bd campo = str_o_vacio (dict_get (map_of datos_bd) campo (PyStr ''''))"

text \<open>\<open>reg_out[campo]\<close>; every field of \<open>campos_orden\<close> is a key of \<open>reg_out\<close>.\<close>

definition out_get :: "(string \<rightharpoonup> string) \<Rightarrow> string \<Rightarrow> string" where
  "out_get reg_out campo = (case reg_out campo of Some v \<Rightarrow> v | None \<Rightarrow> '''')"

text \<open>The merge of a decommissioned record: the database wins where it is not empty.\<close>

definition merge_baja :: "(string \<times> pyval) list \<Rightarrow> (string \<rightharpoonup> string) \<Rightarrow> (string \<rightharpoonup> string)" where
  "merge_baja datos_bd reg_out =
     fold (\<lambda>campo out. if val_bd datos_bd campo \<noteq> '''' then out(campo \<mapsto> val_bd datos_bd campo)
                        else out)
          campos_orden reg_out"

text \<open>The validation of any other record: replace only where Excel and database differ.\<close>

definition merge_validacion :: "(string \<times> pyval) list \<Rightarrow> (string \<rightharpoonup> string) \<Rightarrow> (string \<rightharpoonup> string)" where
  "merge_validacion datos_bd reg_out =
     fold (\<lambda>campo out.
             if val_bd datos_bd campo \<noteq> '''' \<and> out_get out campo \<noteq> val_bd datos_bd campo
             then out(campo \<mapsto> val_bd datos_bd campo) else out)
          campos_orden reg_out"

text \<open>\<open>reg_out = {c: str(reg.get(c, '') or '').strip() for c in campos_orden}\<close>.\<close>

definition reg_out_inicial :: "registro \<Rightarrow> (string \<rightharpoonup> string)" where
  "reg_out_inicial reg = map_of (map (\<lambda>c. (c, str_o_vacio (dict_get reg c (PyStr '''')))) campos_orden)"

text \<open>
  One iteration of the loop, lines 257 to 308: the record \<open>reg_out\<close> after the merge.
  \<open>bajas\<close> maps a link to the operational code of a decommissioned structure.
  \<open>reg.get('ENLACE', '').strip()\<close> raises AttributeError outside the \<open>try\<close> when the value
  is not a string.
\<close>

definition reg_out_fusionado ::
  "repositorio \<Rightarrow> (string \<rightharpoonup> string) \<Rightarrow> registro \<Rightarrow> error + (string \<rightharpoonup> string)" where
  "reg_out_fusionado ora bajas reg =
     (let reg_out = reg_out_inicial reg in
      case dict_get reg ''ENLACE'' (PyStr '''') of
        PyStr e \<Rightarrow>
          (let enlace_upper = upper (strip e);
               codigo_op = (case bajas enlace_upper of Some c \<Rightarrow> c | None \<Rightarrow> '''')
           in if codigo_op \<noteq> '''' \<and> oracle_disponible ora then
                (let fid_real = obtener_fid_desde_codigo_operativo ora codigo_op in
                 if fid_real \<noteq> '''' then
                   (let datos_bd = consultar_norma_oracle ora fid_real in
                    if datos_bd \<noteq> [] then Inr (merge_baja datos_bd reg_out) else Inr reg_out)
                 else Inr reg_out)
              else if enlace_upper \<noteq> '''' \<and> oracle_disponible ora then
                (let fid = obtener_fid_desde_enlace ora enlace_upper in
                 if fid \<noteq> '''' then
                   (let datos_bd = consultar_norma_oracle ora fid in
                    if datos_bd \<noteq> [] then Inr (merge_validacion datos_bd reg_out) else Inr reg_out)
                 else Inr reg_out)
              else Inr reg_out)
      | _ \<Rightarrow> Inl AttributeError)"

text \<open>
  Lines 310 to 320, the default and the normalisation of the quantity. \<open>str.isdigit\<close>
  holds of a string that is not empty and has only digits, among which Python counts the
  superscripts one, two and three.
\<close>

definition isdigit :: "string \<Rightarrow> bool" where
  "isdigit s = (s \<noteq> [] \<and> (\<forall>c \<in> set s. is_digit c \<or> c \<in> set [CHR 0xB2, CHR 0xB3, CHR 0xB9]))"

definition normalizar_cantidad :: "string \<Rightarrow> string" where
  "normalizar_cantidad val =
     (if val = '''' then ''1''
      else if CHR ''.'' \<in> set val \<and> isdigit (filter (\<lambda>c. c \<noteq> CHR ''.'') val)
      then takeWhile (\<lambda>c. c \<noteq> CHR ''.'') val
      else val)"

definition valores_por_defecto :: "(string \<rightharpoonup> string) \<Rightarrow> (string \<rightharpoonup> string)" where
  "valores_por_defecto reg_out =
     reg_out(''CANTIDAD'' \<mapsto> normalizar_cantidad (out_get reg_out ''CANTIDAD''))"

text \<open>
  \<open>limpiar_valor_para_txt\<close>. The module \<open>generadores.base\<close> that the generator imports it
  from is not among the sources; the body is that of the function of the same name in
  the monolithic services module, \<open>DataUtils.limpiar_valor_para_txt\<close>, which the
  monolithic version of this loop calls.
\<close>

definition limpiar_valor_para_txt :: "pyval \<Rightarrow> string" where
  "limpiar_valor_para_txt valor =
     (case valor of
        PyNone \<Rightarrow> ''''
      | _ \<Rightarrow>
        (let valor_str = strip (map (\<lambda>c. if c = CHR 0x0A \<or> c = CHR 0x0D then CHR '' ''
                                             else if c = CHR ''|'' then CHR ''-'' else c)
                                    (py_str valor))
         in if valor_str = '''' \<or> lower valor_str \<in> set [''nan'', ''none'', ''null''] then ''''
            else if length valor_str > 255 then take 252 valor_str @ ''...''
            else valor_str))"

text \<open>
  One iteration of the loop, lines 257 to 324: the values of the line written, in the
  order of \<open>campos_orden\<close>; the line is these values joined by a bar.
\<close>

definition escribir_txt_norma_registro ::
  "repositorio \<Rightarrow> (string \<rightharpoonup> string) \<Rightarrow> registro \<Rightarrow> error + string list" where
  "escribir_txt_norma_registro ora bajas reg =
     (case reg_out_fusionado ora bajas reg of
        Inl e \<Rightarrow> Inl e
      | Inr reg_out \<Rightarrow>
          Inr (map (\<lambda>c. limpiar_valor_para_txt (PyStr (out_get (valores_por_defecto reg_out) c)))
                   campos_orden))"

section \<open>Record router for the conductor sheet\<close>

text \<open>
  \<open>FileGenerator._extraer_campo_conductor\<close>, \<open>generar_txt_linea\<close> (step 2) and
  \<open>generar_txt_baja_linea\<close> (step 2) of the monolithic services module. A row of the sheet is a dict in
  insertion order, modelled as an association list. Of the table \<open>variantes\<close> only the
  two entries read by the router are listed.
\<close>

type_synonym fila = "(string \<times> pyval) list"

definition variantes :: "string \<Rightarrow> string list" where
  "variantes campo_tipo =
     (if campo_tipo = ''codigo_fid_git'' then
        [''C'' @ [CHR 0xF3] @ ''digo FID'' @ [CHR 0x0A] @ ''GIT'',
         ''C'' @ [CHR 0xF3] @ ''digo FID GIT'', ''Codigo FID GIT'', ''CODIGO_FID_GIT'',
         ''c'' @ [CHR 0xF3] @ ''digo fid git'', ''codigo fid git'', ''FID_GIT'', ''FID GIT'',
         ''C'' @ [CHR 0xF3] @ ''digo FID_rep'']
      else if campo_tipo = ''unidad_constructiva'' then
        [''Unidad Constructiva'', ''UNIDAD_CONSTRUCTIVA'', ''unidad constructiva'', ''UC'',
         ''UNIDAD CONSTRUCTIVA'']
      else [])"

text \<open>
  \<open>valor and str(valor).strip() and str(valor).strip().lower() not in ('nan', 'none', 'null', '')\<close>.
\<close>

definition valor_presente :: "pyval \<Rightarrow> bool" where
  "valor_presente valor =
     (truthy valor \<and> strip (py_str valor) \<noteq> '''' \<and>
      lower (strip (py_str valor)) \<notin> set [''nan'', ''none'', ''null'', ''''])"

text \<open>The first loop: the literal names, in order.\<close>

fun buscar_por_nombre :: "fila \<Rightarrow> string list \<Rightarrow> string option" where
  "buscar_por_nombre registro [] = None"
| "buscar_por_nombre registro (nombre # nombres) =
     (case map_of registro nombre of
        Some valor \<Rightarrow> if valor_presente valor then Some (strip (py_str valor))
                      else buscar_por_nombre registro nombres
      | None \<Rightarrow> buscar_por_nombre registro nombres)"

text \<open>\<open>key.lower().replace('\n', '').replace(' ', '').replace('_', '').strip()\<close>.\<close>

definition normalizar_clave :: "string \<Rightarrow> string" where
  "normalizar_clave key =
     strip (filter (\<lambda>c. c \<noteq> CHR 0x0A \<and> c \<noteq> CHR '' '' \<and> c \<noteq> CHR ''_'') (lower key))"

text \<open>The second loop: the keys of the row, in order, compared after normalisation.\<close>

fun buscar_flexible :: "fila \<Rightarrow> string list \<Rightarrow> string option" where
  "buscar_flexible [] nombres = None"
| "buscar_flexible ((key, valor) # resto) nombres =
     (if (\<exists>nombre \<in> set nombres. normalizar_clave key = normalizar_clave nombre) \<and>
         valor_presente valor
      then Some (strip (py_str valor))
      else buscar_flexible resto nombres)"

definition extraer_campo_conductor :: "fila \<Rightarrow> string \<Rightarrow> string" where
  "extraer_campo_conductor registro campo_tipo =
     (case buscar_por_nombre registro (variantes campo_tipo) of
        Some v \<Rightarrow> v
      | None \<Rightarrow> (case buscar_flexible registro (variantes campo_tipo) of
                   Some v \<Rightarrow> v
                 | None \<Rightarrow> ''''))"

text \<open>The filter of \<open>generar_txt_linea\<close>: the rows written to the NEW file.\<close>

fun filtrar_nuevo :: "fila list \<Rightarrow> fila list" where
  "filtrar_nuevo [] = []"
| "filtrar_nuevo (registro # resto) =
     (let fid_git = extraer_campo_conductor registro ''codigo_fid_git'';
          unidad_constructiva = extraer_campo_conductor registro ''unidad_constructiva''
      in if fid_git \<noteq> '''' \<and> unidad_constructiva = '''' then filtrar_nuevo resto
         else if fid_git = '''' \<and> unidad_constructiva = '''' then filtrar_nuevo resto
         else registro # filtrar_nuevo resto)"

text \<open>The filter of \<open>generar_txt_baja_linea\<close>: the rows written to the DECOMMISSION file.\<close>

fun filtrar_baja :: "fila list \<Rightarrow> fila list" where
  "filtrar_baja [] = []"
| "filtrar_baja (registro # resto) =
     (let fid_git = extraer_campo_conductor registro ''codigo_fid_git'';
          unidad_constructiva = extraer_campo_conductor registro ''unidad_constructiva''
      in if fid_git \<noteq> '''' \<and> unidad_constructiva = '''' then registro # filtrar_baja resto
         else filtrar_baja resto)"

section \<open>Dates\<close>

text \<open>
  \<open>datetime.strptime\<close> for the directives the code uses. The standard library turns a
  format into a regular expression, \<open>%d\<close> into \<open>3[0-1]|[1-2]\d|0[1-9]|[1-9]| [1-9]\<close>,
  \<open>%m\<close> into \<open>1[0-2]|0[1-9]|[1-9]\<close>, \<open>%Y\<close> into \<open>\d\d\d\d\<close>, matches it at the start of
  the string with backtracking, takes the first match, and raises ValueError when text
  remains after it or the day does not exist in the month. \<open>alternativas\<close> lists the
  alternatives of a directive that match at the start of a string, in the order of the
  regular expression, each with the number read and the text left.
\<close>

definition digit_char :: "nat \<Rightarrow> char" where
  "digit_char n = ''0123456789'' ! (n mod 10)"

definition digit_val :: "char \<Rightarrow> nat" where
  "digit_val c = length (takeWhile (\<lambda>d. d \<noteq> c) ''0123456789'')"

datatype directiva = Dia | Mes | Anio | Literal char

fun alternativas :: "directiva \<Rightarrow> string \<Rightarrow> (nat \<times> string) list" where
  "alternativas Dia s =
     (case s of a # b # r \<Rightarrow>
        (if a = CHR ''3'' \<and> b \<in> set ''01'' then [(30 + digit_val b, r)] else [])
      | _ \<Rightarrow> [])
   @ (case s of a # b # r \<Rightarrow>
        (if a \<in> set ''12'' \<and> is_digit b then [(10 * digit_val a + digit_val b, r)] else [])
      | _ \<Rightarrow> [])
   @ (case s of a # b # r \<Rightarrow>
        (if a = CHR ''0'' \<and> b \<in> set ''123456789'' then [(digit_val b, r)] else [])
      | _ \<Rightarrow> [])
   @ (case s of a # r \<Rightarrow> (if a \<in> set ''123456789'' then [(digit_val a, r)] else [])
      | _ \<Rightarrow> [])
   @ (case s of a # b # r \<Rightarrow>
        (if a = CHR '' '' \<and> b \<in> set ''123456789'' then [(digit_val b, r)] else [])
      | _ \<Rightarrow> [])"
| "alternativas Mes s =
     (case s of a # b # r \<Rightarrow>
        (if a = CHR ''1'' \<and> b \<in> set ''012'' then [(10 + digit_val b, r)] else [])
      | _ \<Rightarrow> [])
   @ (case s of a # b # r \<Rightarrow>
        (if a = CHR ''0'' \<and> b \<in> set ''123456789'' then [(digit_val b, r)] else [])
      | _ \<Rightarrow> [])
   @ (case s of a # r \<Rightarrow> (if a \<in> set ''123456789'' then [(digit_val a, r)] else [])
      | _ \<Rightarrow> [])"
| "alternativas Anio s =
     (case s of a # b # c # d # r \<Rightarrow>
        (if is_digit a \<and> is_digit b \<and> is_digit c \<and> is_digit d
         then [(1000 * digit_val a + 100 * digit_val b + 10 * digit_val c + digit_val d, r)]
         else [])
      | _ \<Rightarrow> [])"
| "alternativas (Literal c) s = (case s of a # r \<Rightarrow> (if a = c then [(0, r)] else []) | _ \<Rightarrow> [])"

record fecha =
  anio :: nat
  mes :: nat
  dia :: nat

definition asignar :: "directiva \<Rightarrow> nat \<Rightarrow> fecha \<Rightarrow> fecha" where
  "asignar d v f = (case d of Dia \<Rightarrow> f\<lparr>dia := v\<rparr> | Mes \<Rightarrow> f\<lparr>mes := v\<rparr>
                    | Anio \<Rightarrow> f\<lparr>anio := v\<rparr> | Literal c \<Rightarrow> f)"

text \<open>All the ways the format matches at the start of the string, in backtracking order.\<close>

fun casar :: "directiva list \<Rightarrow> string \<Rightarrow> fecha \<Rightarrow> (fecha \<times> string) list" where
  "casar [] s f = [(f, s)]"
| "casar (d # ds) s f = concat (map (\<lambda>(v, r). casar ds r (asignar d v f)) (alternativas d s))"

definition bisiesto :: "nat \<Rightarrow> bool" where
  "bisiesto y = (y mod 4 = 0 \<and> (y mod 100 \<noteq> 0 \<or> y mod 400 = 0))"

definition dias_del_mes :: "nat \<Rightarrow> nat \<Rightarrow> nat" where
  "dias_del_mes y m = (if m = 2 then (if bisiesto y then 29 else 28)
                       else if m \<in> set [4, 6, 9, 11] then 30 else 31)"

definition fecha_valida :: "fecha \<Rightarrow> bool" where
  "fecha_valida f = (1 \<le> anio f \<and> anio f \<le> 9999 \<and> 1 \<le> mes f \<and> mes f \<le> 12 \<and>
                     1 \<le> dia f \<and> dia f \<le> dias_del_mes (anio f) (mes f))"

text \<open>\<open>datetime.strptime(s, formato)\<close>; \<open>None\<close> stands for ValueError.\<close>

definition strptime :: "string \<Rightarrow> directiva list \<Rightarrow> fecha option" where
  "strptime s formato =
     (case casar formato s \<lparr>anio = 1900, mes = 1, dia = 1\<rparr> of
        [] \<Rightarrow> None
      | (f, resto) # _ \<Rightarrow>
          if resto \<noteq> [] then None else if fecha_valida f then Some f else None)"

definition dos_digitos :: "nat \<Rightarrow> string" where
  "dos_digitos n = [digit_char (n div 10), digit_char n]"

definition cuatro_digitos :: "nat \<Rightarrow> string" where
  "cuatro_digitos n =
     [digit_char (n div 1000), digit_char (n div 100), digit_char (n div 10), digit_char n]"

text \<open>
  \<open>fecha_obj.strftime('%d/%m/%Y')\<close>, with the year written with four digits as the
  library documents \<open>%Y\<close> (some C libraries drop the leading zeros of a year below 1000).
\<close>

definition strftime_dmY :: "fecha \<Rightarrow> string" where
  "strftime_dmY f =
     dos_digitos (dia f) @ ''/'' @ dos_digitos (mes f) @ ''/'' @ cuatro_digitos (anio f)"

text \<open>The formats \<open>%Y-%m-%d\<close>, \<open>%d/%m/%Y\<close>, \<open>%m/%d/%Y\<close>, \<open>%Y/%m/%d\<close> and \<open>%d-%m-%Y\<close>.\<close>

definition Ymd_guion :: "directiva list" where
  "Ymd_guion = [Anio, Literal CHR ''-'', Mes, Literal CHR ''-'', Dia]"

definition dmY_barra :: "directiva list" where
  "dmY_barra = [Dia, Literal CHR ''/'', Mes, Literal CHR ''/'', Anio]"

definition mdY_barra :: "directiva list" where
  "mdY_barra = [Mes, Literal CHR ''/'', Dia, Literal CHR ''/'', Anio]"

definition Ymd_barra :: "directiva list" where
  "Ymd_barra = [Anio, Literal CHR ''/'', Mes, Literal CHR ''/'', Dia]"

definition dmY_guion :: "directiva list" where
  "dmY_guion = [Dia, Literal CHR ''-'', Mes, Literal CHR ''-'', Anio]"

text \<open>
  The loop over the formats: the first format that parses wins and the date is written
  as DD/MM/YYYY; \<open>None\<close> when every format raised ValueError.
\<close>

fun primer_formato :: "directiva list list \<Rightarrow> string \<Rightarrow> string option" where
  "primer_formato [] s = None"
| "primer_formato (formato # formatos) s =
     (case strptime s formato of
        Some fecha_obj \<Rightarrow> Some (strftime_dmY fecha_obj)
      | None \<Rightarrow> primer_formato formatos s)"

text \<open>\<open>re.match(r'^\d{2}/\d{2}/\d{4}$', fecha_str)\<close> on a stripped string.\<close>

definition es_dd_mm_yyyy :: "string \<Rightarrow> bool" where
  "es_dd_mm_yyyy s =
     (case s of
        [d1, d2, b1, m1, m2, b2, y1, y2, y3, y4] \<Rightarrow>
          is_digit d1 \<and> is_digit d2 \<and> b1 = CHR ''/'' \<and> is_digit m1 \<and> is_digit m2 \<and>
          b2 = CHR ''/'' \<and> is_digit y1 \<and> is_digit y2 \<and> is_digit y3 \<and> is_digit y4
      | _ \<Rightarrow> False)"

definition formatos_data_utils :: "directiva list list" where
  "formatos_data_utils = [Ymd_guion, dmY_barra, mdY_barra, Ymd_barra]"

text \<open>
  \<open>DataUtils.formatear_fecha\<close> of the monolithic services module. A boolean is an
  \<open>int\<close> in Python: \<open>True\<close> is read as the Excel serial number 1, which is
  \<open>datetime(1900, 1, 1) + timedelta(days=-1)\<close>.
\<close>

definition formatear_fecha :: "pyval \<Rightarrow> string" where
  "formatear_fecha fecha =
     (if \<not> truthy fecha \<or> strip (py_str fecha) = '''' then ''''
      else
        let fecha_str = strip (py_str fecha) in
        if es_dd_mm_yyyy fecha_str then fecha_str
        else
          (case fecha of
             PyBool b \<Rightarrow> ''31/12/1899''
           | PyStr s \<Rightarrow>
               (let fecha_str = (if CHR '' '' \<in> set fecha_str
                                 then takeWhile (\<lambda>c. c \<noteq> CHR '' '') fecha_str
                                 else fecha_str)
                in case primer_formato formatos_data_utils fecha_str of
                     Some f \<Rightarrow> f
                   | None \<Rightarrow> '''')
           | PyNone \<Rightarrow> ''''))"

definition formatos_entrada :: "directiva list list" where
  "formatos_entrada = [dmY_barra, Ymd_guion, dmY_guion, mdY_barra, Ymd_barra]"

text \<open>
  \<open>GeneradorBase.formatear_fecha\<close> of the modular generators, with its default
  \<open>formato_salida = 'DD/MM/YYYY'\<close>.
\<close>

definition formatear_fecha_base :: "pyval \<Rightarrow> string" where
  "formatear_fecha_base valor =
     (if \<not> truthy valor \<or> lower (strip (py_str valor)) \<in> set [''nan'', ''none'', '''']
      then ''01/01/1900''
      else
        let valor_str = strip (py_str valor) in
        case primer_formato formatos_entrada valor_str of
          Some f \<Rightarrow> f
        | None \<Rightarrow> ''01/01/1900'')"

section \<open>Classifier\<close>

text \<open>
  \<open>DataUtils.normalizar_codigo_material\<close>. A boolean is an \<open>int\<close> in Python and is
  returned as \<open>str(valor)\<close>. \<open>re.fullmatch(r"\d+", s2)\<close> and
  \<open>re.fullmatch(r"\d+\.0+", s2)\<close> are written out.
\<close>

definition solo_digitos :: "string \<Rightarrow> bool" where
  "solo_digitos s = (s \<noteq> [] \<and> (\<forall>c \<in> set s. is_digit c))"

definition entero_punto_ceros :: "string \<Rightarrow> bool" where
  "entero_punto_ceros s =
     (let ent = takeWhile is_digit s; resto = dropWhile is_digit s
      in ent \<noteq> [] \<and> (case resto of
                          p # ceros \<Rightarrow> p = CHR ''.'' \<and> ceros \<noteq> [] \<and> (\<forall>c \<in> set ceros. c = CHR ''0'')
                        | [] \<Rightarrow> False))"

definition normalizar_codigo_material :: "pyval \<Rightarrow> string" where
  "normalizar_codigo_material valor =
     (case valor of
        PyNone \<Rightarrow> ''''
      | PyBool b \<Rightarrow> py_str valor
      | PyStr v \<Rightarrow>
          (let s = strip v in
           if s = '''' then ''''
           else
             let s2 = map (\<lambda>c. if c = CHR '','' then CHR ''.'' else c) s in
             if solo_digitos s2 then s2
             else if entero_punto_ceros s2 then takeWhile (\<lambda>c. c \<noteq> CHR ''.'') s2
             else s))"

text \<open>
  The module \<open>constants\<close> is not among the sources: its tables are parameters of the
  classifier. A regular expression of a table is its matcher: for \<open>PATRON\<close> whether
  \<open>re.match\<close> succeeds, for \<open>patron\<close> the text of group 1 when it does.
  \<open>conversion_tipo_proyecto\<close> holds the roman numeral entries of
  \<open>REGLAS_CLASIFICACION['CONVERSION_TIPO_PROYECTO']\<close>; the two other keys of that dict,
  \<open>VALOR_DEFECTO\<close> and \<open>MAPEO_NIVEL_TENSION\<close>, are fields of their own.
\<close>

record regla_patron =
  patron :: "(string \<Rightarrow> string option) option"
  mapeo :: "(string \<times> string) list option"
  alturas :: "(string \<times> string list) list option"

record constantes =
  conversion_tipo_proyecto :: "(string \<times> string) list"
  valor_defecto_tipo_proyecto :: string
  mapeo_nivel_tension :: "(string \<times> string) list"
  reglas_prioritarias :: "((string \<Rightarrow> bool) \<times> string) list"
  valor_defecto_tipo :: string
  estados_salud :: "(string \<times> string) list"
  catalogo_materiales :: "string list"
  mapeos_directos :: "(string \<times> string) list"
  reglas_por_patron :: "regla_patron list"
  mapeo_por_defecto :: "(string \<times> string) list"

text \<open>\<open>_clasificar_tipo_por_uc\<close>.\<close>

definition clasificar_tipo_por_uc :: "constantes \<Rightarrow> string \<Rightarrow> string" where
  "clasificar_tipo_por_uc k uc =
     (if uc = '''' then valor_defecto_tipo k
      else case find (\<lambda>(regla_patron, tipo). regla_patron uc) (reglas_prioritarias k) of
             Some (regla_patron, tipo) \<Rightarrow> tipo
           | None \<Rightarrow> valor_defecto_tipo k)"

text \<open>\<open>_roman_to_int\<close>: the loop over the reversed string carries \<open>total\<close> (here \<open>tot\<close>) and \<open>prev\<close>.\<close>

definition valores :: "char \<Rightarrow> int" where
  "valores ch = (case map_of [(CHR ''I'', 1), (CHR ''V'', 5), (CHR ''X'', 10), (CHR ''L'', 50),
                              (CHR ''C'', 100), (CHR ''D'', 500), (CHR ''M'', 1000)] ch of
                   Some v \<Rightarrow> v | None \<Rightarrow> 0)"

fun roman_bucle :: "string \<Rightarrow> int \<Rightarrow> int \<Rightarrow> int" where
  "roman_bucle [] tot prev = tot"
| "roman_bucle (ch # resto) tot prev =
     (let v = valores ch in
      if v < prev then roman_bucle resto (tot - v) prev
      else roman_bucle resto (tot + v) v)"

definition roman_to_int :: "string \<Rightarrow> int" where
  "roman_to_int s = roman_bucle (rev (upper (strip s))) 0 0"

text \<open>\<open>str(n)\<close> for an integer.\<close>

fun str_nat :: "nat \<Rightarrow> string" where
  "str_nat n = (if n < 10 then [digit_char n] else str_nat (n div 10) @ [digit_char n])"

definition str_int :: "int \<Rightarrow> string" where
  "str_int i = (if i < 0 then ''-'' @ str_nat (nat (- i)) else str_nat (nat i))"

text \<open>\<open>re.findall(r"[IVXLCDM]+", s)\<close>: the maximal runs of roman letters, left to right.\<close>

definition es_romano :: "char \<Rightarrow> bool" where
  "es_romano c = (c \<in> set ''IVXLCDM'')"

function findall_romanos :: "string \<Rightarrow> string list" where
  "findall_romanos [] = []"
| "findall_romanos (c # s) =
     (if es_romano c
      then takeWhile es_romano (c # s) # findall_romanos (dropWhile es_romano s)
      else findall_romanos s)"
  by pat_completeness auto
termination
  by (relation "measure length") (auto simp: length_dropWhile_le less_Suc_eq_le)

text \<open>\<open>max(coincidencias, key=len)\<close>: the first of the longest.\<close>

fun max_len :: "string list \<Rightarrow> string" where
  "max_len [] = ''''"
| "max_len [x] = x"
| "max_len (x # y # ys) = (let m = max_len (y # ys) in if length m > length x then m else x)"

text \<open>\<open>_convertir_tipo_proyecto\<close>.\<close>

definition convertir_tipo_proyecto :: "constantes \<Rightarrow> string \<Rightarrow> string" where
  "convertir_tipo_proyecto k tipo_proyecto =
     (if tipo_proyecto = '''' then tipo_proyecto
      else
        let tipo_limpio = upper (strip tipo_proyecto);
            coincidencias = findall_romanos tipo_limpio;
            romano_extraido = (if coincidencias \<noteq> [] then max_len coincidencias else tipo_limpio)
        in case map_of (conversion_tipo_proyecto k) romano_extraido of
             Some t \<Rightarrow> t
           | None \<Rightarrow>
               (let valor = roman_to_int romano_extraido in
                if valor > 0 then ''T'' @ str_int valor else tipo_proyecto))"

text \<open>\<open>_generar_tipo_proyecto_desde_nivel_tension\<close>.\<close>

definition generar_tipo_proyecto_desde_nivel_tension :: "constantes \<Rightarrow> string \<Rightarrow> string" where
  "generar_tipo_proyecto_desde_nivel_tension k nivel_tension =
     (if nivel_tension = '''' then valor_defecto_tipo_proyecto k
      else
        let nivel_limpio = upper (strip nivel_tension) in
        case map_of (mapeo_nivel_tension k) nivel_limpio of
          Some t \<Rightarrow> t
        | None \<Rightarrow>
            (case find (\<lambda>(p, tipo_proyecto). suffix ''L'' p \<and> prefix p nivel_limpio)
                       (mapeo_nivel_tension k) of
               Some (p, tipo_proyecto) \<Rightarrow> tipo_proyecto
             | None \<Rightarrow> valor_defecto_tipo_proyecto k))"

text \<open>\<open>_clasificar_propietario\<close>; \<open>nombre.strip()\<close> raises on a value that is not a string.\<close>

definition clasificar_propietario :: "pyval \<Rightarrow> error + string" where
  "clasificar_propietario nombre_propietario =
     (if \<not> truthy nombre_propietario then Inr ''PARTICULAR''
      else case nombre_propietario of
             PyStr s \<Rightarrow>
               (let nombre_limpio = upper (strip s) in
                if \<exists>keyword \<in> set [''CENS'', ''CENTRALES'', ''ELECTRICA'']. sublist keyword nombre_limpio
                then Inr ''CENS''
                else if \<exists>keyword \<in> set [''ESTADO'', ''GOBIERNO'', ''PUBLICO'', ''MINISTERIO''].
                          sublist keyword nombre_limpio
                then Inr ''ESTADO''
                else if \<exists>keyword \<in> set [''COMPARTIDO'', ''CONSORCIO'', ''SOCIEDAD''].
                          sublist keyword nombre_limpio
                then Inr ''COMPARTIDO''
                else Inr ''PARTICULAR'')
           | _ \<Rightarrow> Inl AttributeError)"

text \<open>
  \<open>_asignar_codigo_material\<close>. The second tier goes through the rules in order; a rule
  that matches answers from its \<open>mapeo\<close>, then from its \<open>alturas\<close>, with the first code
  found in the catalogue.
\<close>

definition codigo_por_regla :: "constantes \<Rightarrow> regla_patron \<Rightarrow> string \<Rightarrow> string option" where
  "codigo_por_regla k regla uc_limpio =
     (case patron regla of
        None \<Rightarrow> None
      | Some p \<Rightarrow>
          (case p uc_limpio of
             None \<Rightarrow> None
           | Some grupo \<Rightarrow>
               (let por_mapeo =
                      (case mapeo regla of
                         None \<Rightarrow> None
                       | Some mapeo_cargas \<Rightarrow>
                           (case map_of mapeo_cargas grupo of
                              Some codigo_patron \<Rightarrow>
                                if codigo_patron \<in> set (catalogo_materiales k)
                                then Some codigo_patron else None
                            | None \<Rightarrow> None))
                in case por_mapeo of
                     Some c \<Rightarrow> Some c
                   | None \<Rightarrow>
                       (case alturas regla of
                          None \<Rightarrow> None
                        | Some mapeo_alturas \<Rightarrow>
                            (case map_of mapeo_alturas grupo of
                               Some codigos_altura \<Rightarrow>
                                 find (\<lambda>c. c \<in> set (catalogo_materiales k)) codigos_altura
                             | None \<Rightarrow> None)))))"

fun codigo_por_patrones :: "constantes \<Rightarrow> regla_patron list \<Rightarrow> string \<Rightarrow> string option" where
  "codigo_por_patrones k [] uc_limpio = None"
| "codigo_por_patrones k (regla # reglas) uc_limpio =
     (case codigo_por_regla k regla uc_limpio of
        Some c \<Rightarrow> Some c
      | None \<Rightarrow> codigo_por_patrones k reglas uc_limpio)"

definition asignar_codigo_material :: "constantes \<Rightarrow> string \<Rightarrow> string" where
  "asignar_codigo_material k uc =
     (if uc = '''' then ''''
      else
        let uc_limpio = upper (strip uc) in
        if uc_limpio = '''' then ''''
        else
          case (case map_of (mapeos_directos k) uc_limpio of
                  Some codigo_directo \<Rightarrow>
                    if codigo_directo \<in> set (catalogo_materiales k) then Some codigo_directo
                    else None
                | None \<Rightarrow> None) of
            Some c \<Rightarrow> c
          | None \<Rightarrow>
              (case codigo_por_patrones k (reglas_por_patron k) uc_limpio of
                 Some c \<Rightarrow> c
               | None \<Rightarrow>
                   (case map_of (mapeo_por_defecto k) (clasificar_tipo_por_uc k uc_limpio) of
                      Some codigo_defecto \<Rightarrow>
                        if codigo_defecto \<in> set (catalogo_materiales k) then codigo_defecto
                        else ''''
                    | None \<Rightarrow> '''')))"

text \<open>\<open>_convertir_estado_salud\<close>.\<close>

definition convertir_estado_salud :: "constantes \<Rightarrow> pyval \<Rightarrow> string" where
  "convertir_estado_salud k estado_salud =
     (if \<not> truthy estado_salud \<or>
         upper (strip (py_str estado_salud)) \<in> set ['''', ''NAN'', ''NONE'']
      then ''''
      else
        let estado_str = upper (strip (py_str estado_salud));
            estado_convertido = (case map_of (estados_salud k) estado_str of
                                   Some e \<Rightarrow> e | None \<Rightarrow> '''')
        in if estado_convertido \<in> set [''BUENO'', ''REGULAR'', ''MALO'']
           then estado_convertido else '''')"

text \<open>\<open>registro.get(campo, '').strip()\<close>, which raises on a value that is not a string.\<close>

definition campo_strip :: "registro \<Rightarrow> string \<Rightarrow> error + string" where
  "campo_strip registro campo =
     (case dict_get registro campo (PyStr '''') of
        PyStr s \<Rightarrow> Inr (strip s)
      | _ \<Rightarrow> Inl AttributeError)"

text \<open>Rule 6: the operation date follows the installation date.\<close>

definition regla_fechas :: "registro \<Rightarrow> registro \<Rightarrow> registro" where
  "regla_fechas registro registro_clasificado =
     (let fecha_instalacion = dict_get registro ''FECHA_INSTALACION'' (PyStr '''') in
      if truthy fecha_instalacion then
        (let fecha_formateada = formatear_fecha fecha_instalacion in
         registro_clasificado(''FECHA_INSTALACION'' \<mapsto> PyStr fecha_formateada,
                              ''FECHA_OPERACION'' \<mapsto> PyStr fecha_formateada))
      else registro_clasificado)"

text \<open>Rule 7: the material code; \<open>uc\<close> is the stripped construction unit.\<close>

definition regla_codigo_material :: "constantes \<Rightarrow> registro \<Rightarrow> string \<Rightarrow> registro \<Rightarrow> registro" where
  "regla_codigo_material k registro uc registro_clasificado =
     (let cm_excel = normalizar_codigo_material (dict_get registro ''CODIGO_MATERIAL'' (PyStr ''''));
          from_excel_flag = truthy (dict_get registro ''_CODIGO_MATERIAL_FROM_EXCEL'' (PyBool False))
      in if cm_excel \<noteq> '''' then registro_clasificado(''CODIGO_MATERIAL'' \<mapsto> PyStr cm_excel)
         else if \<not> from_excel_flag then
           (let codigo_material = asignar_codigo_material k uc in
            if codigo_material \<noteq> '''' then
              registro_clasificado(''CODIGO_MATERIAL'' \<mapsto>
                                     PyStr (normalizar_codigo_material (PyStr codigo_material)))
            else registro_clasificado)
         else registro_clasificado)"

text \<open>Rule 8: the health status.\<close>

definition regla_estado_salud :: "constantes \<Rightarrow> registro \<Rightarrow> registro \<Rightarrow> registro" where
  "regla_estado_salud k registro registro_clasificado =
     (let estado_salud_convertido =
            convertir_estado_salud k (dict_get registro ''ESTADO_SALUD'' (PyStr ''''))
      in if estado_salud_convertido \<noteq> ''''
         then registro_clasificado(''ESTADO_SALUD'' \<mapsto> PyStr estado_salud_convertido)
         else registro_clasificado)"

text \<open>
  The audit trail \<open>observaciones_clasificacion\<close>, in the order of the \<open>append\<close> calls.
  \<open>uc\<close> and \<open>nivel_tension\<close> are the stripped fields; \<open>tipo_proyecto_original\<close> and
  \<open>tipo_proyecto_convertido\<close> are read only when no project type was generated.
\<close>

definition observacion_generado :: "string \<Rightarrow> string \<Rightarrow> string \<Rightarrow> string" where
  "observacion_generado tipo_proyecto_generado nivel_tension valor_para_mapeo =
     ''TIPO_PROYECTO generado como '' @ [CHR 0x27] @ tipo_proyecto_generado @ [CHR 0x27] @
     '' basado en '' @ (if nivel_tension \<noteq> '''' then ''NIVEL_TENSION'' else ''UC'') @ '': '' @
     valor_para_mapeo"

definition observaciones_clasificacion ::
  "constantes \<Rightarrow> registro \<Rightarrow> registro \<Rightarrow> string \<Rightarrow> string \<Rightarrow> string \<Rightarrow> string \<Rightarrow> string list" where
  "observaciones_clasificacion k registro registro_clasificado uc nivel_tension
       tipo_proyecto_original tipo_proyecto_convertido =
     (let valor_para_mapeo = (if nivel_tension \<noteq> '''' then nivel_tension else uc);
          tipo_proyecto_generado = generar_tipo_proyecto_desde_nivel_tension k valor_para_mapeo;
          tipo_clasificado = clasificar_tipo_por_uc k (upper uc);
          cm_excel = normalizar_codigo_material (dict_get registro ''CODIGO_MATERIAL'' (PyStr ''''));
          codigo_material = dict_get registro_clasificado ''CODIGO_MATERIAL'' (PyStr '''');
          estado_salud = dict_get registro ''ESTADO_SALUD'' (PyStr '''');
          estado_salud_convertido = convertir_estado_salud k estado_salud;
          fecha_instalacion = dict_get registro ''FECHA_INSTALACION'' (PyStr '''')
      in
        (if tipo_proyecto_generado \<noteq> ''''
         then [observacion_generado tipo_proyecto_generado nivel_tension valor_para_mapeo]
         else [])
        @ [''TIPO clasificado como '' @ tipo_clasificado @ '' basado en UC: '' @ uc,
           ''GRUPO forzado a '' @ [CHR 0x27] @ ''ESTRUCTURAS EYT'' @ [CHR 0x27],
           ''CLASE forzada a '' @ [CHR 0x27] @ ''POSTE'' @ [CHR 0x27],
           ''USO forzado a '' @ [CHR 0x27] @ ''DISTRIBUCION ENERGIA'' @ [CHR 0x27],
           ''PORCENTAJE_PROPIEDAD forzado a '' @ [CHR 0x27] @ ''100'' @ [CHR 0x27]]
        @ (if cm_excel = '''' \<and> truthy codigo_material
           then [''CODIGO_MATERIAL asignado como '' @ [CHR 0x27] @ py_str codigo_material @
                 [CHR 0x27] @ '' basado en UC: '' @ uc]
           else [])
        @ (if estado_salud_convertido \<noteq> '''' \<and> PyStr estado_salud_convertido \<noteq> estado_salud
           then [''ESTADO_SALUD convertido de '' @ [CHR 0x27] @ py_str estado_salud @ [CHR 0x27] @
                 '' a '' @ [CHR 0x27] @ estado_salud_convertido @ [CHR 0x27]]
           else [])
        @ (if tipo_proyecto_generado \<noteq> ''''
           then [observacion_generado tipo_proyecto_generado nivel_tension valor_para_mapeo]
           else if tipo_proyecto_original \<noteq> tipo_proyecto_convertido
           then [''TIPO_PROYECTO convertido de '' @ [CHR 0x27] @ tipo_proyecto_original @
                 [CHR 0x27] @ '' a '' @ [CHR 0x27] @ tipo_proyecto_convertido @ [CHR 0x27]]
           else [])
        @ (if truthy fecha_instalacion then [''FECHA_OPERACION igualada a FECHA_INSTALACION'']
           else []))"

text \<open>\<open>"; ".join(xs)\<close>.\<close>

fun unir :: "string \<Rightarrow> string list \<Rightarrow> string" where
  "unir sep [] = ''''"
| "unir sep [x] = x"
| "unir sep (x # y # ys) = x @ sep @ unir sep (y # ys)"

text \<open>
  The record \<open>registro_clasificado\<close> that \<open>clasificar_estructura\<close> builds once the
  fields it strips have been read: the copy of the input, the fixed values, the owner,
  the type, the project type, rules 6 to 8, the observations and the metadata. \<open>ahora\<close>
  is \<open>datetime.now().isoformat()\<close>.
\<close>

definition armar_registro ::
  "constantes \<Rightarrow> string \<Rightarrow> registro \<Rightarrow> string \<Rightarrow> string \<Rightarrow> string \<Rightarrow> string \<Rightarrow> string \<Rightarrow> string \<Rightarrow> registro" where
  "armar_registro k ahora registro propietario_clasificado uc nivel_tension
       tipo_proyecto_original tipo_proyecto observaciones =
     (let rc0 = registro(''GRUPO'' \<mapsto> PyStr ''ESTRUCTURAS EYT'',
                         ''CLASE'' \<mapsto> PyStr ''POSTE'',
                         ''USO'' \<mapsto> PyStr ''DISTRIBUCION ENERGIA'',
                         ''PORCENTAJE_PROPIEDAD'' \<mapsto> PyStr ''100'',
                         ''PROPIETARIO'' \<mapsto> PyStr propietario_clasificado,
                         ''TIPO'' \<mapsto> PyStr (clasificar_tipo_por_uc k (upper uc)),
                         ''TIPO_PROYECTO'' \<mapsto> PyStr tipo_proyecto);
          rc1 = regla_fechas registro rc0;
          rc2 = regla_codigo_material k registro uc rc1;
          rc3 = regla_estado_salud k registro rc2;
          obs = observaciones_clasificacion k registro rc3 uc nivel_tension
                  tipo_proyecto_original tipo_proyecto;
          rc4 = (if observaciones = '''' then rc3(''OBSERVACIONES'' \<mapsto> PyStr '''') else rc3)
      in rc4(''OBSERVACION_CLASIFICACION_SISTEMA'' \<mapsto> PyStr (unir ''; '' obs),
             ''FECHA_CLASIFICACION'' \<mapsto> PyStr ahora,
             ''VERSION_REGLAS'' \<mapsto> PyStr ''2.5''))"

text \<open>
  \<open>ClasificadorEstructuras.clasificar_estructura\<close>. The owner, the construction unit, the
  voltage level and the observations are stripped, and the project type is when none is
  generated from the voltage level or the construction unit: a value that is not a
  string there raises AttributeError.
\<close>

definition clasificar_estructura :: "constantes \<Rightarrow> string \<Rightarrow> registro \<Rightarrow> error + registro" where
  "clasificar_estructura k ahora registro =
     (case clasificar_propietario (dict_get registro ''PROPIETARIO'' (PyStr '''')) of
        Inl e \<Rightarrow> Inl e
      | Inr propietario_clasificado \<Rightarrow>
     (case campo_strip registro ''UC'' of
        Inl e \<Rightarrow> Inl e
      | Inr uc \<Rightarrow>
     (case campo_strip registro ''NIVEL_TENSION'' of
        Inl e \<Rightarrow> Inl e
      | Inr nivel_tension \<Rightarrow>
     (case (let valor_para_mapeo = (if nivel_tension \<noteq> '''' then nivel_tension else uc);
                tipo_proyecto_generado = generar_tipo_proyecto_desde_nivel_tension k valor_para_mapeo
            in if tipo_proyecto_generado \<noteq> '''' then Inr ('''', tipo_proyecto_generado)
               else (case campo_strip registro ''TIPO_PROYECTO'' of
                       Inl e \<Rightarrow> Inl e
                     | Inr tipo_proyecto_original \<Rightarrow>
                         Inr (tipo_proyecto_original,
                              convertir_tipo_proyecto k tipo_proyecto_original))) of
        Inl e \<Rightarrow> Inl e
      | Inr (tipo_proyecto_original, tipo_proyecto) \<Rightarrow>
     (case campo_strip registro ''OBSERVACIONES'' of
        Inl e \<Rightarrow> Inl e
      | Inr observaciones \<Rightarrow>
          Inr (armar_registro k ahora registro propietario_clasificado uc nivel_tension
                 tipo_proyecto_original tipo_proyecto observaciones))))))"

text \<open>
  Modelled from the spec: the tables of the module \<open>constants\<close> that the specification
  gives. TYPE: a construction unit starting with N1 is SECUNDARIO, one starting with N2,
  N3 or N4 is PRIMARIO, the default is SECUNDARIO. PROJECT\_TYPE: I, II, III, IV become
  T1, T2, T3, T4, and nothing is generated from the voltage level. Health status: 1, 2, 3
  become BUENO, REGULAR, MALO. The material tables are empty.
\<close>

definition constantes_spec :: constantes where
  "constantes_spec =
     \<lparr>conversion_tipo_proyecto = [(''I'', ''T1''), (''II'', ''T2''), (''III'', ''T3''), (''IV'', ''T4'')],
      valor_defecto_tipo_proyecto = '''',
      mapeo_nivel_tension = [],
      reglas_prioritarias = [(\<lambda>uc. prefix ''N1'' uc, ''SECUNDARIO''),
                             (\<lambda>uc. \<exists>p \<in> set [''N2'', ''N3'', ''N4'']. prefix p uc, ''PRIMARIO'')],
      valor_defecto_tipo = ''SECUNDARIO'',
      estados_salud = [(''1'', ''BUENO''), (''2'', ''REGULAR''), (''3'', ''MALO'')],
      catalogo_materiales = [],
      mapeos_directos = [],
      reglas_por_patron = [],
      mapeo_por_defecto = []\<rparr>"

section \<open>Validation and coordinated generation of the TXT file\<close>

text \<open>
  \<open>FileManager\<close> of generadores\<open>_\<close>nuevo: \<open>_add_err\<close>, \<open>_validaciones_txt_especificas\<close>,
  \<open>ejecutar_validaciones_integradas\<close> and \<open>generar_archivo_txt_coordinado\<close> from its step 4.
  The records \<open>datos_finales\<close>, the raw rows of the spreadsheet, the errors of
  \<open>ValidadorMaestro.validar_solo_datos\<close> and the name of the output file come from
  collaborators and are parameters. The file system is the list of the files written,
  each a path with its lines. The byte order mark that \<open>lstrip\<close> removes is not
  a character of the model.
\<close>

record error_validacion =
  archivo :: string
  hoja :: string
  fila :: nat
  descripcion :: string

text \<open>\<open>_add_err(fila, descripcion)\<close> with its default sheet: the entry appended.\<close>

definition add_err :: "nat \<Rightarrow> string \<Rightarrow> error_validacion" where
  "add_err fila_excel texto =
     \<lparr>archivo = ''Excel'', hoja = ''Estructuras_N1-N2-N3'', fila = fila_excel,
      descripcion = texto\<rparr>"

text \<open>\<open>idx_map[i] if i < len(idx_map) else i\<close>.\<close>

definition idx_excel_de :: "nat list \<Rightarrow> nat \<Rightarrow> nat" where
  "idx_excel_de idx_map i = (if i < length idx_map then idx_map ! i else i)"

text \<open>
  The link of a row: the first of the columns Identificador, ENLACE, Enlace of the raw
  row that is present and neither \<open>None\<close> nor empty, and when that gives nothing the
  ENLACE of the processed record.
\<close>

fun enlace_de_fila_cruda :: "registro \<Rightarrow> string list \<Rightarrow> string" where
  "enlace_de_fila_cruda raw_row [] = ''''"
| "enlace_de_fila_cruda raw_row (literal # literales) =
     (case raw_row literal of
        Some v \<Rightarrow> if v \<noteq> PyNone \<and> v \<noteq> PyStr '''' then strip (py_str v)
                  else enlace_de_fila_cruda raw_row literales
      | None \<Rightarrow> enlace_de_fila_cruda raw_row literales)"

definition extraer_enlace :: "registro list \<Rightarrow> nat \<Rightarrow> registro \<Rightarrow> string" where
  "extraer_enlace raw_datos_excel idx_excel registro =
     (let enlace_raw = (if idx_excel < length raw_datos_excel
                        then enlace_de_fila_cruda (raw_datos_excel ! idx_excel)
                               [''Identificador'', ''ENLACE'', ''Enlace'']
                        else '''')
      in if enlace_raw = '''' then strip (py_str (dict_get registro ''ENLACE'' (PyStr '''')))
         else enlace_raw)"

definition error_enlace_vacio :: "nat \<Rightarrow> error_validacion" where
  "error_enlace_vacio fila_excel =
     add_err fila_excel (''el Enlace/Identificador de la linea '' @ str_nat fila_excel @
       '' se encuentra vacio, por favor corrijalo para hacer el cargue masivo'')"

definition error_enlace_sin_p :: "nat \<Rightarrow> error_validacion" where
  "error_enlace_sin_p fila_excel =
     add_err fila_excel (''el Enlace/Identificador de la linea '' @ str_nat fila_excel @
       '' debe empezar por P'')"

definition error_enlace_repetido :: "nat \<Rightarrow> nat \<Rightarrow> string \<Rightarrow> error_validacion" where
  "error_enlace_repetido f1 f2 enlace_raw =
     add_err f2 (''no pueden haber dos enlaces/identificadores iguales: fila '' @ str_nat f1 @
       '' y fila '' @ str_nat f2 @ '' con '' @ [CHR 0x27] @ enlace_raw @ [CHR 0x27])"

text \<open>
  The first loop, from position \<open>i\<close> on, with the links seen so far: the errors it appends
  and the records, with the ENLACE of an accepted row written back.
\<close>

fun validar_enlaces ::
  "registro list \<Rightarrow> nat list \<Rightarrow> nat \<Rightarrow> registro list \<Rightarrow> (string \<rightharpoonup> nat) \<Rightarrow>
   error_validacion list \<times> registro list" where
  "validar_enlaces raw_datos_excel idx_map i [] vistos = ([], [])"
| "validar_enlaces raw_datos_excel idx_map i (registro # resto) vistos =
     (let idx_excel = idx_excel_de idx_map i;
          fila_excel = idx_excel + 2;
          enlace_raw = extraer_enlace raw_datos_excel idx_excel registro
      in if enlace_raw = '''' then
           (let (errores, registros) = validar_enlaces raw_datos_excel idx_map (i + 1) resto vistos
            in (error_enlace_vacio fila_excel # errores, registro # registros))
         else if \<not> prefix ''P'' enlace_raw then
           (let (errores, registros) = validar_enlaces raw_datos_excel idx_map (i + 1) resto vistos
            in (error_enlace_sin_p fila_excel # errores, registro # registros))
         else
           (case vistos enlace_raw of
              Some f1 \<Rightarrow>
                (let (errores, registros) =
                       validar_enlaces raw_datos_excel idx_map (i + 1) resto vistos
                 in (error_enlace_repetido f1 fila_excel enlace_raw # errores,
                     registro # registros))
            | None \<Rightarrow>
                (let (errores, registros) =
                       validar_enlaces raw_datos_excel idx_map (i + 1) resto
                         (vistos(enlace_raw \<mapsto> fila_excel))
                 in (errores, registro(''ENLACE'' \<mapsto> PyStr enlace_raw) # registros))))"

text \<open>\<open>'' if uc_val is None else str(uc_val).strip()\<close>, the byte order mark apart.\<close>

definition uc_raw_de :: "registro \<Rightarrow> string" where
  "uc_raw_de registro =
     (case dict_get registro ''UC'' (PyStr '''') of
        PyNone \<Rightarrow> ''''
      | uc_val \<Rightarrow> strip (py_str uc_val))"

definition error_uc_vacia :: "nat \<Rightarrow> error_validacion" where
  "error_uc_vacia fila_excel =
     add_err fila_excel (''la Unidad Constructiva de la linea '' @ str_nat fila_excel @
       '' se encuentra vacia, por favor corrijala para hacer el cargue masivo'')"

definition error_uc_sin_n :: "nat \<Rightarrow> error_validacion" where
  "error_uc_sin_n fila_excel =
     add_err fila_excel (''la Unidad Constructiva de la linea '' @ str_nat fila_excel @
       '' debe empezar por N'')"

text \<open>The second loop, from position \<open>i\<close> on: the errors it appends.\<close>

fun validar_uc :: "nat list \<Rightarrow> nat \<Rightarrow> registro list \<Rightarrow> error_validacion list" where
  "validar_uc idx_map i [] = []"
| "validar_uc idx_map i (registro # resto) =
     (let idx_excel = idx_excel_de idx_map i;
          fila_excel = idx_excel + 2;
          uc_raw = uc_raw_de registro
      in if uc_raw = '''' then error_uc_vacia fila_excel # validar_uc idx_map (i + 1) resto
         else if \<not> prefix ''N'' uc_raw then
           error_uc_sin_n fila_excel # validar_uc idx_map (i + 1) resto
         else validar_uc idx_map (i + 1) resto)"

text \<open>
  \<open>_validaciones_txt_especificas\<close>: the accumulated errors, which it also returns as
  \<open>errores_especificos\<close>, and the records after the first loop.
\<close>

definition validaciones_txt_especificas ::
  "registro list \<Rightarrow> registro list \<Rightarrow> nat list \<Rightarrow> error_validacion list \<times> registro list" where
  "validaciones_txt_especificas datos_finales raw_datos_excel idx_map =
     (let (errores_enlace, registros) = validar_enlaces raw_datos_excel idx_map 0 datos_finales Map.empty
      in (errores_enlace @ validar_uc idx_map 0 registros, registros))"

text \<open>
  \<open>ejecutar_validaciones_integradas\<close>:
  \<open>errores_datos + errores_adicionales + self.errores_acumulados\<close>, where the last two
  are the same entries.
\<close>

definition ejecutar_validaciones_integradas ::
  "error_validacion list \<Rightarrow> registro list \<Rightarrow> registro list \<Rightarrow> nat list \<Rightarrow>
   error_validacion list \<times> registro list" where
  "ejecutar_validaciones_integradas errores_datos datos_finales raw_datos_excel idx_map =
     (let (errores_acumulados, registros) =
            validaciones_txt_especificas datos_finales raw_datos_excel idx_map
      in (errores_datos @ errores_acumulados @ errores_acumulados, registros))"

text \<open>\<open>_get_encabezados_txt\<close>.\<close>

definition get_encabezados_txt :: "string \<Rightarrow> string list" where
  "get_encabezados_txt tipo_archivo =
     [''COORDENADA_X'', ''COORDENADA_Y'', ''UBICACION'', ''ESTADO'', ''CODIGO_MATERIAL'',
      ''FECHA_INSTALACION'', ''FECHA_OPERACION'', ''PROYECTO'', ''EMPRESA'', ''OBSERVACIONES'',
      ''CLASIFICACION_MERCADO'', ''TIPO_PROYECTO'', ''ID_MERCADO'', ''UC'', ''ESTADO_SALUD'',
      ''OT_MAXIMO'', ''CODIGO_MARCACION'', ''SALINIDAD'',
      (if tipo_archivo = ''estructuras_baja'' then ''ENLACE'' else ''FID_ANTERIOR''),
      ''GRUPO'', ''TIPO'', ''CLASE'', ''USO'', ''TIPO_ADECUACION'', ''PROPIETARIO'',
      ''PORCENTAJE_PROPIEDAD'']"

text \<open>A line of the file: \<open>'|'.join(str(valor) if valor is not None else '' ...)\<close>.\<close>

definition linea_txt :: "string list \<Rightarrow> registro \<Rightarrow> string" where
  "linea_txt campos registro =
     unir ''|'' (map (\<lambda>campo. case dict_get registro campo (PyStr '''') of
                                 PyNone \<Rightarrow> '''' | valor \<Rightarrow> py_str valor) campos)"

record resultado =
  exito :: bool
  archivo_generado :: "string option"
  ruta_archivo :: "string option"
  total_registros :: nat
  errores_validacion :: "error_validacion list"
  mensaje :: string

type_synonym archivos = "(string \<times> string list) list"

text \<open>
  \<open>generar_archivo_txt_coordinado\<close> from the prepared records on. An empty batch raises
  and is reported in the message; validation errors are stored in the result and the
  function returns before the file is opened; otherwise the file is written.
\<close>

definition generar_archivo_txt_coordinado ::
  "string \<Rightarrow> string \<Rightarrow> string \<Rightarrow> error_validacion list \<Rightarrow> registro list \<Rightarrow> registro list \<Rightarrow>
   archivos \<Rightarrow> resultado \<times> archivos" where
  "generar_archivo_txt_coordinado tipo_archivo filename filepath errores_datos datos_finales
       raw_datos_excel fs =
     (let inicial = \<lparr>exito = False, archivo_generado = None, ruta_archivo = None,
                     total_registros = 0, errores_validacion = [], mensaje = ''''\<rparr>
      in if datos_finales = [] then
           (inicial\<lparr>mensaje := ''Error generando archivo TXT: '' @
                                 ''No hay datos transformados para generar archivo TXT''\<rparr>, fs)
         else
           let idx_map = [0..<length datos_finales];
               (errores, registros) =
                 ejecutar_validaciones_integradas errores_datos datos_finales raw_datos_excel idx_map
           in if errores \<noteq> [] then
                (inicial\<lparr>errores_validacion := errores,
                          mensaje := ''Se encontraron '' @ str_nat (length errores) @
                                     '' errores de validaci'' @ [CHR 0xF3] @ ''n''\<rparr>, fs)
              else
                let encabezados = get_encabezados_txt tipo_archivo;
                    lineas = unir ''|'' encabezados # map (linea_txt encabezados) registros
                in (inicial\<lparr>exito := True, archivo_generado := Some filename,
                             ruta_archivo := Some filepath,
                             total_registros := length registros,
                             mensaje := ''Archivo '' @ filename @ '' generado exitosamente con '' @
                                        str_nat (length registros) @ '' registros''\<rparr>,
                    fs @ [(filepath, lineas)]))"

section \<open>Example inputs\<close>

text \<open>A conductor row with neither a reference code nor a construction unit.\<close>

definition fila_sin_fid_ni_uc :: fila where
  "fila_sin_fid_ni_uc = [(''Calibre'', PyStr ''2/0''), (''Fases'', PyStr ''3'')]"

text \<open>Rows with a reference code and no construction unit, with both, and with the unit only.\<close>

definition fila_baja :: fila where
  "fila_baja = [(''FID_GIT'', PyStr ''Z238163''), (''UC'', PyStr '''')]"

definition fila_reposicion :: fila where
  "fila_reposicion = [(''FID_GIT'', PyStr ''Z238163''), (''UC'', PyStr ''N2L79'')]"

definition fila_nueva :: fila where
  "fila_nueva = [(''UC'', PyStr ''N2L79'')]"

text \<open>A row whose reference code stands under a header in capitals, with a blank unit.\<close>

definition fila_baja_mayusculas :: fila where
  "fila_baja_mayusculas = [(''C'' @ [CHR 0xD3] @ ''DIGO FID GIT'', PyStr ''40771''),
                           (''Unidad Constructiva'', PyStr '' '')]"

text \<open>
  A reference database holding one norm row, with an empty circuit, a NULL group and a
  quantity written with a decimal point; the links of the decommissioned structures.
\<close>

definition repo_ej :: repositorio where
  "repo_ej = \<lparr>oracle_disponible = True,
     obtener_fid_desde_codigo_operativo = (\<lambda>c. if c = ''Z238163'' then ''1001'' else ''''),
     obtener_fid_desde_enlace = (\<lambda>c. if c = ''P7'' then ''1001'' else ''''),
     consultar_norma_oracle =
       (\<lambda>f. if f = ''1001''
            then [(''NORMA'', PyStr ''X''), (''CIRCUITO'', PyStr ''''), (''GRUPO'', PyNone),
                  (''CANTIDAD'', PyStr ''10.0'')]
            else [])\<rparr>"

definition bajas_ej :: "string \<rightharpoonup> string" where
  "bajas_ej = [''P12'' \<mapsto> ''Z238163'']"

text \<open>Norm records: of a decommissioned structure, and of another one known to the database.\<close>

definition registro_norma_baja :: registro where
  "registro_norma_baja = [''ENLACE'' \<mapsto> PyStr ''p12'', ''NORMA'' \<mapsto> PyStr ''A'',
                          ''CIRCUITO'' \<mapsto> PyStr ''C1'', ''GRUPO'' \<mapsto> PyStr ''G1'']"

definition registro_norma_validacion :: registro where
  "registro_norma_validacion = [''ENLACE'' \<mapsto> PyStr ''P7'', ''NORMA'' \<mapsto> PyStr ''X'',
                                ''CIRCUITO'' \<mapsto> PyStr ''C1'', ''CANTIDAD'' \<mapsto> PyStr ''3'']"

text \<open>Records as the pipeline hands them to the classifier, and a clock reading.\<close>

definition ahora_ej :: string where
  "ahora_ej = ''2025-11-05T08:03:46''"

definition registro_ej :: registro where
  "registro_ej = [''UC'' \<mapsto> PyStr ''n3l75'', ''FECHA_INSTALACION'' \<mapsto> PyStr ''2024-01-15'',
                  ''ESTADO_SALUD'' \<mapsto> PyStr ''1'', ''TIPO_PROYECTO'' \<mapsto> PyStr ''T2'',
                  ''_TIPO_PROYECTO_EXCEL'' \<mapsto> PyStr ''T2'',
                  ''CODIGO_MATERIAL'' \<mapsto> PyStr ''200067.0'',
                  ''_CODIGO_MATERIAL_FROM_EXCEL'' \<mapsto> PyBool True]"


definition registro_salud_7 :: registro where
  "registro_salud_7 = [''UC'' \<mapsto> PyStr ''N1L75'', ''ESTADO_SALUD'' \<mapsto> PyStr ''7'']"

text \<open>A material catalogue with one code, reached from the construction unit N3L75.\<close>

definition constantes_ej :: constantes where
  "constantes_ej = constantes_spec\<lparr>catalogo_materiales := [''200067''],
                                    mapeos_directos := [(''N3L75'', ''200067'')]\<rparr>"



text \<open>Batches for the validations: one with a repeated link, an empty link and two bad
  construction units, and one that passes.\<close>

definition datos_validacion_ej :: "registro list" where
  "datos_validacion_ej =
     [[''ENLACE'' \<mapsto> PyStr ''P100'', ''UC'' \<mapsto> PyStr ''N3L75''],
      [''ENLACE'' \<mapsto> PyStr '' P100'', ''UC'' \<mapsto> PyStr ''''],
      [''UC'' \<mapsto> PyStr ''A1'']]"

definition raw_validacion_ej :: "registro list" where
  "raw_validacion_ej = [[''Identificador'' \<mapsto> PyStr ''P100 '']]"

definition datos_validos_ej :: "registro list" where
  "datos_validos_ej =
     [[''ENLACE'' \<mapsto> PyStr ''P100'', ''UC'' \<mapsto> PyStr ''N3L75'', ''ESTADO'' \<mapsto> PyStr ''ACTIVO''],
      [''ENLACE'' \<mapsto> PyStr ''P200 '', ''UC'' \<mapsto> PyStr ''N1L80'', ''ESTADO'' \<mapsto> PyNone]]"

section \<open>Properties\<close>

lemmas string_ops = lower_c_def upper_c_def lower_def upper_def ascii_mayusculas_def
  ascii_minusculas_def latin1_mayusculas_def latin1_minusculas_def is_space_def strip_def
  is_digit_def

subsection \<open>Database reconciliation\<close>

lemma fold_merge_baja:
  "fold (\<lambda>campo out. if g campo \<noteq> '''' then out(campo \<mapsto> g campo) else out) xs m c =
     (if c \<in> set xs \<and> g c \<noteq> '''' then Some (g c) else m c)"
  by (induction xs arbitrary: m) auto

lemma merge_baja_campo:
  "merge_baja datos_bd reg_out campo =
     (if campo \<in> set campos_orden \<and> val_bd datos_bd campo \<noteq> '''' then Some (val_bd datos_bd campo) else reg_out campo)"
  unfolding merge_baja_def by (rule fold_merge_baja)

lemma fold_merge_validacion:
  "out_get (fold (\<lambda>campo out. if g campo \<noteq> '''' \<and> out_get out campo \<noteq> g campo
                        then out(campo \<mapsto> g campo) else out) xs m) c =
     (if c \<in> set xs \<and> g c \<noteq> '''' then g c else out_get m c)"
  by (induction xs arbitrary: m) (auto simp: out_get_def)

lemma fold_merge_validacion_dom:
  "c \<in> dom m \<Longrightarrow> c \<in> dom (fold (\<lambda>campo out. if g campo \<noteq> '''' \<and> out_get out campo \<noteq> g campo
                        then out(campo \<mapsto> g campo) else out) xs m)"
  by (induction xs arbitrary: m) auto

lemma merge_validacion_campo:
  "out_get (merge_validacion datos_bd reg_out) campo =
     (if campo \<in> set campos_orden \<and> val_bd datos_bd campo \<noteq> '''' then val_bd datos_bd campo else out_get reg_out campo)"
  unfolding merge_validacion_def by (rule fold_merge_validacion)

lemma map_of_tabla: "map_of (map (\<lambda>c. (c, f c)) xs) c = (if c \<in> set xs then Some (f c) else None)"
  by (induction xs) auto

lemma reg_out_inicial_campo:
  "reg_out_inicial reg campo =
     (if campo \<in> set campos_orden then Some (str_o_vacio (dict_get reg campo (PyStr ''''))) else None)"
  unfolding reg_out_inicial_def by (rule map_of_tabla)

lemma merge_validacion_Some:
  assumes "campo \<in> set campos_orden"
  shows "merge_validacion datos_bd (reg_out_inicial reg) campo =
     Some (if val_bd datos_bd campo \<noteq> '''' then val_bd datos_bd campo
           else str_o_vacio (dict_get reg campo (PyStr '''')))"
proof -
  let ?M = "merge_validacion datos_bd (reg_out_inicial reg)"
  have "campo \<in> dom (reg_out_inicial reg)"
    using assms by (simp add: reg_out_inicial_campo dom_def)
  then have "campo \<in> dom ?M"
    unfolding merge_validacion_def by (rule fold_merge_validacion_dom)
  then obtain v where v: "?M campo = Some v"
    by auto
  have "out_get (reg_out_inicial reg) campo = str_o_vacio (dict_get reg campo (PyStr ''''))"
    using assms by (simp add: out_get_def reg_out_inicial_campo)
  then have "out_get ?M campo = (if val_bd datos_bd campo \<noteq> '''' then val_bd datos_bd campo
           else str_o_vacio (dict_get reg campo (PyStr '''')))"
    using assms by (simp add: merge_validacion_campo)
  moreover have "out_get ?M campo = v"
    using v by (simp add: out_get_def)
  ultimately show ?thesis
    using v by simp
qed

lemma val_bd_caso:
  "val_bd datos_bd campo =
     (case map_of datos_bd campo of
        None \<Rightarrow> ''''
      | Some v \<Rightarrow> if truthy v then strip (py_str v) else '''')"
  by (simp add: val_bd_def str_o_vacio_def dict_get_def strip_def split: option.splits)

lemma str_o_vacio_caso:
  "str_o_vacio (dict_get reg campo (PyStr '''')) =
     (case reg campo of
        None \<Rightarrow> ''''
      | Some v \<Rightarrow> if truthy v then strip (py_str v) else '''')"
  by (simp add: str_o_vacio_def dict_get_def strip_def split: option.splits)

lemma merge_baja_Some:
  assumes "campo \<in> set campos_orden"
  shows "merge_baja datos_bd (reg_out_inicial reg) campo =
     Some (if val_bd datos_bd campo \<noteq> '''' then val_bd datos_bd campo
           else str_o_vacio (dict_get reg campo (PyStr '''')))"
  using assms by (simp add: merge_baja_campo reg_out_inicial_campo)

lemma reg_out_fusionado_resuelto:
  assumes "dict_get reg ''ENLACE'' (PyStr '''') = PyStr e"
      and "oracle_disponible ora"
      and "consultar_norma_oracle ora fid = datos_bd" "datos_bd \<noteq> []" "fid \<noteq> ''''"
  shows "bajas (upper (strip e)) = Some cod \<Longrightarrow> cod \<noteq> '''' \<Longrightarrow>
         obtener_fid_desde_codigo_operativo ora cod = fid \<Longrightarrow>
         reg_out_fusionado ora bajas reg = Inr (merge_baja datos_bd (reg_out_inicial reg))"
    and "bajas (upper (strip e)) = None \<or> bajas (upper (strip e)) = Some '''' \<Longrightarrow>
         upper (strip e) \<noteq> '''' \<Longrightarrow> obtener_fid_desde_enlace ora (upper (strip e)) = fid \<Longrightarrow>
         reg_out_fusionado ora bajas reg = Inr (merge_validacion datos_bd (reg_out_inicial reg))"
proof -
  show "bajas (upper (strip e)) = Some cod \<Longrightarrow> cod \<noteq> '''' \<Longrightarrow>
         obtener_fid_desde_codigo_operativo ora cod = fid \<Longrightarrow>
         reg_out_fusionado ora bajas reg = Inr (merge_baja datos_bd (reg_out_inicial reg))"
    using assms by (simp add: reg_out_fusionado_def)
  show "bajas (upper (strip e)) = None \<or> bajas (upper (strip e)) = Some '''' \<Longrightarrow>
         upper (strip e) \<noteq> '''' \<Longrightarrow> obtener_fid_desde_enlace ora (upper (strip e)) = fid \<Longrightarrow>
         reg_out_fusionado ora bajas reg = Inr (merge_validacion datos_bd (reg_out_inicial reg))"
  proof -
    assume h: "bajas (upper (strip e)) = None \<or> bajas (upper (strip e)) = Some ''''"
      "upper (strip e) \<noteq> ''''" "obtener_fid_desde_enlace ora (upper (strip e)) = fid"
    then have "(case bajas (upper (strip e)) of Some c \<Rightarrow> c | None \<Rightarrow> '''') = ''''"
      by auto
    then show ?thesis
      using h assms by (simp add: reg_out_fusionado_def)
  qed
qed

lemma valores_por_defecto_campo:
  "out_get (valores_por_defecto reg_out) c =
     (if c = ''CANTIDAD'' then normalizar_cantidad (out_get reg_out c) else out_get reg_out c)"
  by (simp add: valores_por_defecto_def out_get_def)

lemma campos_orden_distintos: "distinct campos_orden"
  by code_simp

lemma map_of_zip_map:
  "distinct xs \<Longrightarrow> c \<in> set xs \<Longrightarrow> map_of (zip xs (map f xs)) c = Some (f c)"
  by (induction xs) auto

lemma escribir_txt_norma_registro_campo:
  assumes "reg_out_fusionado ora bajas reg = Inr reg_out" "campo \<in> set campos_orden"
  shows "\<exists>valores. escribir_txt_norma_registro ora bajas reg = Inr valores \<and>
           length valores = length campos_orden \<and>
           map_of (zip campos_orden valores) campo =
             Some (limpiar_valor_para_txt
                     (PyStr (if campo = ''CANTIDAD'' then normalizar_cantidad (out_get reg_out campo)
                             else out_get reg_out campo)))"
proof -
  let ?F = "\<lambda>c. limpiar_valor_para_txt (PyStr (out_get (valores_por_defecto reg_out) c))"
  have "escribir_txt_norma_registro ora bajas reg = Inr (map ?F campos_orden)"
    using assms(1) by (simp add: escribir_txt_norma_registro_def)
  moreover have "length (map ?F campos_orden) = length campos_orden" by simp
  moreover have "map_of (zip campos_orden (map ?F campos_orden)) campo = Some (?F campo)"
    by (rule map_of_zip_map [OF campos_orden_distintos assms(2)])
  ultimately show ?thesis
    unfolding valores_por_defecto_campo by blast
qed

text \<open>
  Claim C2, amended. A database cell is empty when the row has no such column, when it is
  NULL (\<open>None\<close>) or false, or when its text is blank; otherwise its value is its trimmed
  text. The spreadsheet value of a field is read the same way. For a decommissioned
  record, whose link has an operational code that the database resolves, and for any other
  record resolved through its link, every field of the merged record is the database value
  when that is not empty and the spreadsheet value otherwise, so that a field differs from
  the spreadsheet value only when the database value is not empty and differs from it.
  The line written holds the merged values cleaned by \<open>limpiar_valor_para_txt\<close>, except
  for the quantity, which is first set to 1 when empty and cut at its decimal point when
  it is a number with a point.
\<close>

theorem reconciliacion_campo_a_campo:
  assumes campo: "campo \<in> set campos_orden"
      and enlace: "dict_get reg ''ENLACE'' (PyStr '''') = PyStr e"
      and disp: "oracle_disponible ora"
      and bd: "consultar_norma_oracle ora fid = datos_bd" "datos_bd \<noteq> []" "fid \<noteq> ''''"
      and resuelto:
        "(bajas (upper (strip e)) = Some cod \<and> cod \<noteq> '''' \<and>
          obtener_fid_desde_codigo_operativo ora cod = fid) \<or>
         ((bajas (upper (strip e)) = None \<or> bajas (upper (strip e)) = Some '''') \<and>
          upper (strip e) \<noteq> '''' \<and> obtener_fid_desde_enlace ora (upper (strip e)) = fid)"
  shows "let bd_valor = (case map_of datos_bd campo of
                           None \<Rightarrow> ''''
                         | Some v \<Rightarrow> if truthy v then strip (py_str v) else '''');
             excel_valor = (case reg campo of
                              None \<Rightarrow> ''''
                            | Some v \<Rightarrow> if truthy v then strip (py_str v) else '''');
             fusionado = (if bd_valor \<noteq> '''' then bd_valor else excel_valor)
         in \<exists>reg_out valores.
              reg_out_fusionado ora bajas reg = Inr reg_out \<and>
              reg_out campo = Some fusionado \<and>
              (fusionado \<noteq> excel_valor) = (bd_valor \<noteq> '''' \<and> bd_valor \<noteq> excel_valor) \<and>
              escribir_txt_norma_registro ora bajas reg = Inr valores \<and>
              length valores = length campos_orden \<and>
              map_of (zip campos_orden valores) campo =
                Some (limpiar_valor_para_txt
                        (PyStr (if campo = ''CANTIDAD'' then normalizar_cantidad fusionado
                                else fusionado)))"
proof -
  let ?bd = "val_bd datos_bd campo"
  let ?ex = "str_o_vacio (dict_get reg campo (PyStr ''''))"
  let ?f = "if ?bd \<noteq> '''' then ?bd else ?ex"
  obtain reg_out where r: "reg_out_fusionado ora bajas reg = Inr reg_out" "reg_out campo = Some ?f"
  proof -
    from resuelto show ?thesis
    proof
      assume h: "bajas (upper (strip e)) = Some cod \<and> cod \<noteq> '''' \<and>
          obtener_fid_desde_codigo_operativo ora cod = fid"
      then have "reg_out_fusionado ora bajas reg = Inr (merge_baja datos_bd (reg_out_inicial reg))"
        using reg_out_fusionado_resuelto(1) [OF enlace disp bd] by blast
      then show ?thesis using merge_baja_Some [OF campo] that by blast
    next
      assume h: "(bajas (upper (strip e)) = None \<or> bajas (upper (strip e)) = Some '''') \<and>
          upper (strip e) \<noteq> '''' \<and> obtener_fid_desde_enlace ora (upper (strip e)) = fid"
      then have "reg_out_fusionado ora bajas reg = Inr (merge_validacion datos_bd (reg_out_inicial reg))"
        using reg_out_fusionado_resuelto(2) [OF enlace disp bd] by blast
      then show ?thesis using merge_validacion_Some [OF campo] that by blast
    qed
  qed
  from r(2) have o: "out_get reg_out campo = ?f" by (simp add: out_get_def)
  from escribir_txt_norma_registro_campo [OF r(1) campo] obtain valores where
    v: "escribir_txt_norma_registro ora bajas reg = Inr valores"
       "length valores = length campos_orden"
       "map_of (zip campos_orden valores) campo =
             Some (limpiar_valor_para_txt
                     (PyStr (if campo = ''CANTIDAD'' then normalizar_cantidad (out_get reg_out campo)
                             else out_get reg_out campo)))"
    by blast
  have e: "(?f \<noteq> ?ex) = (?bd \<noteq> '''' \<and> ?bd \<noteq> ?ex)" by simp
  have "\<exists>reg_out valores.
              reg_out_fusionado ora bajas reg = Inr reg_out \<and>
              reg_out campo = Some ?f \<and>
              (?f \<noteq> ?ex) = (?bd \<noteq> '''' \<and> ?bd \<noteq> ?ex) \<and>
              escribir_txt_norma_registro ora bajas reg = Inr valores \<and>
              length valores = length campos_orden \<and>
              map_of (zip campos_orden valores) campo =
                Some (limpiar_valor_para_txt
                        (PyStr (if campo = ''CANTIDAD'' then normalizar_cantidad ?f else ?f)))"
    using r v [unfolded o] e by blast
  then show ?thesis
    unfolding Let_def val_bd_caso str_o_vacio_caso .
qed

text \<open>
  Claim C2 as stated fails for the quantity: the database value 10.0 is not empty, and the
  field written is 10; a record with no quantity on either side is written with 1.
\<close>

theorem cantidad_normalizada_counterexample:
  "map_of (consultar_norma_oracle repo_ej ''1001'') ''CANTIDAD'' = Some (PyStr ''10.0'') \<and>
   escribir_txt_norma_registro repo_ej bajas_ej registro_norma_baja =
     Inr [''X'', ''G1'', ''C1'', '''', '''', ''10'', ''''] \<and>
   escribir_txt_norma_registro repo_ej bajas_ej [''ENLACE'' \<mapsto> PyStr ''P99''] =
     Inr ['''', '''', '''', '''', '''', ''1'', '''']"
  by code_simp

theorem reconciliacion_campo_a_campo_witness:
  "(\<exists>reg_out valores.
      reg_out_fusionado repo_ej bajas_ej registro_norma_baja = Inr reg_out \<and>
      reg_out ''NORMA'' = Some ''X'' \<and> reg_out ''CIRCUITO'' = Some ''C1'' \<and>
      reg_out ''GRUPO'' = Some ''G1'' \<and> reg_out ''CANTIDAD'' = Some ''10.0'' \<and>
      escribir_txt_norma_registro repo_ej bajas_ej registro_norma_baja = Inr valores \<and>
      map_of (zip campos_orden valores) ''CANTIDAD'' = Some ''10'' \<and>
      map_of (zip campos_orden valores) ''NORMA'' = Some ''X'')
   \<and> (\<exists>reg_out. reg_out_fusionado repo_ej Map.empty registro_norma_validacion = Inr reg_out \<and>
          reg_out ''NORMA'' = Some ''X'' \<and> reg_out ''CIRCUITO'' = Some ''C1'')"
proof -
  let ?bd = "[(''NORMA'', PyStr ''X''), (''CIRCUITO'', PyStr ''''), (''GRUPO'', PyNone),
              (''CANTIDAD'', PyStr ''10.0'')]"
  have bd: "consultar_norma_oracle repo_ej ''1001'' = ?bd" "?bd \<noteq> []" "''1001'' \<noteq> ''''"
       and disp: "oracle_disponible repo_ej"
    by (simp_all add: repo_ej_def)
  have e1: "dict_get registro_norma_baja ''ENLACE'' (PyStr '''') = PyStr ''p12''"
   and e2: "dict_get registro_norma_validacion ''ENLACE'' (PyStr '''') = PyStr ''P7''"
    by code_simp+
  have c: "''NORMA'' \<in> set campos_orden" "''CIRCUITO'' \<in> set campos_orden"
          "''GRUPO'' \<in> set campos_orden" "''CANTIDAD'' \<in> set campos_orden"
    by (simp_all add: campos_orden_def)
  have r1: "(bajas_ej (upper (strip ''p12'')) = Some ''Z238163'' \<and> ''Z238163'' \<noteq> '''' \<and>
          obtener_fid_desde_codigo_operativo repo_ej ''Z238163'' = ''1001'') \<or>
         ((bajas_ej (upper (strip ''p12'')) = None \<or> bajas_ej (upper (strip ''p12'')) = Some '''') \<and>
          upper (strip ''p12'') \<noteq> '''' \<and>
          obtener_fid_desde_enlace repo_ej (upper (strip ''p12'')) = ''1001'')"
    by code_simp
  have r2: "(Map.empty (upper (strip ''P7'')) = Some ''Z238163'' \<and> ''Z238163'' \<noteq> '''' \<and>
          obtener_fid_desde_codigo_operativo repo_ej ''Z238163'' = ''1001'') \<or>
         ((Map.empty (upper (strip ''P7'')) = None \<or> Map.empty (upper (strip ''P7'')) = Some '''') \<and>
          upper (strip ''P7'') \<noteq> '''' \<and>
          obtener_fid_desde_enlace repo_ej (upper (strip ''P7'')) = ''1001'')"
    by code_simp
  have v: "(case map_of ?bd ''NORMA'' of None \<Rightarrow> '''' | Some v \<Rightarrow> if truthy v then strip (py_str v) else '''') = ''X''"
    "(case map_of ?bd ''CIRCUITO'' of None \<Rightarrow> '''' | Some v \<Rightarrow> if truthy v then strip (py_str v) else '''') = ''''"
    "(case map_of ?bd ''GRUPO'' of None \<Rightarrow> '''' | Some v \<Rightarrow> if truthy v then strip (py_str v) else '''') = ''''"
    "(case map_of ?bd ''CANTIDAD'' of None \<Rightarrow> '''' | Some v \<Rightarrow> if truthy v then strip (py_str v) else '''') = ''10.0''"
    by code_simp+
  have x: "(case registro_norma_baja ''CIRCUITO'' of None \<Rightarrow> '''' | Some v \<Rightarrow> if truthy v then strip (py_str v) else '''') = ''C1''"
    "(case registro_norma_baja ''GRUPO'' of None \<Rightarrow> '''' | Some v \<Rightarrow> if truthy v then strip (py_str v) else '''') = ''G1''"
    "(case registro_norma_validacion ''CIRCUITO'' of None \<Rightarrow> '''' | Some v \<Rightarrow> if truthy v then strip (py_str v) else '''') = ''C1''"
    by code_simp+
  have l: "limpiar_valor_para_txt (PyStr (normalizar_cantidad ''10.0'')) = ''10''"
    "limpiar_valor_para_txt (PyStr ''X'') = ''X''"
    by code_simp+
  note a1 = reconciliacion_campo_a_campo [where bajas = bajas_ej and cod = "''Z238163''", OF c(1) e1 disp bd r1, unfolded Let_def v x]
  note a2 = reconciliacion_campo_a_campo [where bajas = bajas_ej and cod = "''Z238163''", OF c(2) e1 disp bd r1, unfolded Let_def v x]
  note a3 = reconciliacion_campo_a_campo [where bajas = bajas_ej and cod = "''Z238163''", OF c(3) e1 disp bd r1, unfolded Let_def v x]
  note a4 = reconciliacion_campo_a_campo [where bajas = bajas_ej and cod = "''Z238163''", OF c(4) e1 disp bd r1, unfolded Let_def v x]
  note b1 = reconciliacion_campo_a_campo [where bajas = Map.empty and cod = "''Z238163''", OF c(1) e2 disp bd r2, unfolded Let_def v x]
  note b2 = reconciliacion_campo_a_campo [where bajas = Map.empty and cod = "''Z238163''", OF c(2) e2 disp bd r2, unfolded Let_def v x]
  from a1 obtain o1 w1 where o1: "reg_out_fusionado repo_ej bajas_ej registro_norma_baja = Inr o1"
      "o1 ''NORMA'' = Some ''X''"
      "escribir_txt_norma_registro repo_ej bajas_ej registro_norma_baja = Inr w1"
      "map_of (zip campos_orden w1) ''NORMA'' = Some ''X''"
    by (auto simp: l)
  from a2 o1(1) have o2: "o1 ''CIRCUITO'' = Some ''C1''" by auto
  from a3 o1(1) have o3: "o1 ''GRUPO'' = Some ''G1''" by auto
  from a4 o1(1,3) have o4: "o1 ''CANTIDAD'' = Some ''10.0''"
    "map_of (zip campos_orden w1) ''CANTIDAD'' = Some ''10''"
    by (auto simp: l)
  from b1 obtain p1 where p1: "reg_out_fusionado repo_ej Map.empty registro_norma_validacion = Inr p1"
      "p1 ''NORMA'' = Some ''X''"
    by auto
  from b2 p1(1) have p2: "p1 ''CIRCUITO'' = Some ''C1''" by auto
  show ?thesis
    using o1 o2 o3 o4 p1 p2 by blast
qed


subsection \<open>Record router\<close>

lemma filtrar_baja_filter:
  "filtrar_baja datos =
     filter (\<lambda>r. extraer_campo_conductor r ''codigo_fid_git'' \<noteq> '''' \<and>
                  extraer_campo_conductor r ''unidad_constructiva'' = '''') datos"
  by (induction datos) (simp_all add: Let_def)

lemma filtrar_nuevo_filter:
  "filtrar_nuevo datos =
     filter (\<lambda>r. extraer_campo_conductor r ''unidad_constructiva'' \<noteq> '''') datos"
  by (induction datos) (auto simp: Let_def)

lemma tres_partes:
  "length (filter (\<lambda>r. extraer_campo_conductor r ''unidad_constructiva'' \<noteq> '''') datos)
   + length (filter (\<lambda>r. extraer_campo_conductor r ''codigo_fid_git'' \<noteq> '''' \<and>
                         extraer_campo_conductor r ''unidad_constructiva'' = '''') datos)
   + length (filter (\<lambda>r. extraer_campo_conductor r ''codigo_fid_git'' = '''' \<and>
                         extraer_campo_conductor r ''unidad_constructiva'' = '''') datos)
   = length datos"
  by (induction datos) auto

lemma valor_presente_strip: "valor_presente valor \<Longrightarrow> strip (py_str valor) \<noteq> ''''"
  by (simp add: valor_presente_def)

lemma buscar_por_nombre_Some:
  "buscar_por_nombre r nombres = Some v \<Longrightarrow>
   v \<noteq> '''' \<and> (\<exists>nombre \<in> set nombres. \<exists>valor. (nombre, valor) \<in> set r \<and> valor_presente valor)"
proof (induction nombres)
  case Nil
  then show ?case by simp
next
  case (Cons n ns)
  show ?case
  proof (cases "map_of r n")
    case None
    with Cons show ?thesis by auto
  next
    case (Some valor)
    show ?thesis
    proof (cases "valor_presente valor")
      case True
      with Some Cons.prems have "v = strip (py_str valor)" by simp
      with True Some show ?thesis
        using valor_presente_strip [OF True] by (auto dest: map_of_SomeD)
    next
      case False
      with Some Cons show ?thesis by auto
    qed
  qed
qed

lemma buscar_flexible_Some: "buscar_flexible r nombres = Some v \<Longrightarrow> v \<noteq> ''''"
  by (induction r nombres rule: buscar_flexible.induct)
     (auto simp: valor_presente_strip split: if_splits)

lemma buscar_flexible_iff:
  "buscar_flexible r nombres \<noteq> None \<longleftrightarrow>
   (\<exists>(key, valor) \<in> set r. valor_presente valor \<and>
      normalizar_clave key \<in> normalizar_clave ` set nombres)"
  by (induction r nombres rule: buscar_flexible.induct) auto

lemma extraer_campo_conductor_presente:
  "extraer_campo_conductor r campo_tipo \<noteq> '''' \<longleftrightarrow>
   (\<exists>(key, valor) \<in> set r. valor_presente valor \<and>
      normalizar_clave key \<in> normalizar_clave ` set (variantes campo_tipo))"
proof
  assume a: "extraer_campo_conductor r campo_tipo \<noteq> ''''"
  show "\<exists>(key, valor) \<in> set r. valor_presente valor \<and>
          normalizar_clave key \<in> normalizar_clave ` set (variantes campo_tipo)"
  proof (cases "buscar_por_nombre r (variantes campo_tipo)")
    case (Some v)
    from buscar_por_nombre_Some [OF this] show ?thesis by blast
  next
    case None
    with a have "buscar_flexible r (variantes campo_tipo) \<noteq> None"
      by (auto simp: extraer_campo_conductor_def split: option.splits)
    then show ?thesis unfolding buscar_flexible_iff .
  qed
next
  assume "\<exists>(key, valor) \<in> set r. valor_presente valor \<and>
            normalizar_clave key \<in> normalizar_clave ` set (variantes campo_tipo)"
  then have "buscar_flexible r (variantes campo_tipo) \<noteq> None"
    unfolding buscar_flexible_iff .
  then obtain w where w: "buscar_flexible r (variantes campo_tipo) = Some w" by blast
  show "extraer_campo_conductor r campo_tipo \<noteq> ''''"
  proof (cases "buscar_por_nombre r (variantes campo_tipo)")
    case (Some v)
    with buscar_por_nombre_Some [OF this] show ?thesis
      by (simp add: extraer_campo_conductor_def)
  next
    case None
    with w buscar_flexible_Some [OF w] show ?thesis
      by (simp add: extraer_campo_conductor_def)
  qed
qed

lemma claves_fid:
  "normalizar_clave ` set (variantes ''codigo_fid_git'') =
   set [''c'' @ [CHR 0xF3] @ ''digofidgit'', ''codigofidgit'', ''fidgit'',
        ''c'' @ [CHR 0xF3] @ ''digofidrep'']"
proof -
  have "set (map normalizar_clave (variantes ''codigo_fid_git'')) =
        set [''c'' @ [CHR 0xF3] @ ''digofidgit'', ''codigofidgit'', ''fidgit'',
             ''c'' @ [CHR 0xF3] @ ''digofidrep'']"
    by code_simp
  then show ?thesis by (simp only: set_map)
qed

lemma claves_uc:
  "normalizar_clave ` set (variantes ''unidad_constructiva'') = set [''unidadconstructiva'', ''uc'']"
proof -
  have "set (map normalizar_clave (variantes ''unidad_constructiva'')) =
        set [''unidadconstructiva'', ''uc'']"
    by code_simp
  then show ?thesis by (simp only: set_map)
qed

lemma fid_presente:
  "extraer_campo_conductor r ''codigo_fid_git'' \<noteq> '''' \<longleftrightarrow>
   (\<exists>(key, valor) \<in> set r. valor_presente valor \<and>
      normalizar_clave key \<in> set [''c'' @ [CHR 0xF3] @ ''digofidgit'', ''codigofidgit'', ''fidgit'',
                                   ''c'' @ [CHR 0xF3] @ ''digofidrep''])"
  unfolding extraer_campo_conductor_presente claves_fid ..

lemma uc_presente:
  "extraer_campo_conductor r ''unidad_constructiva'' \<noteq> '''' \<longleftrightarrow>
   (\<exists>(key, valor) \<in> set r. valor_presente valor \<and>
      normalizar_clave key \<in> set [''unidadconstructiva'', ''uc''])"
  unfolding extraer_campo_conductor_presente claves_uc ..

lemma fid_ausente:
  "extraer_campo_conductor r ''codigo_fid_git'' = '''' \<longleftrightarrow>
   \<not> (\<exists>(key, valor) \<in> set r. valor_presente valor \<and>
      normalizar_clave key \<in> set [''c'' @ [CHR 0xF3] @ ''digofidgit'', ''codigofidgit'', ''fidgit'',
                                   ''c'' @ [CHR 0xF3] @ ''digofidrep''])"
  using fid_presente [of r] by blast

lemma uc_ausente:
  "extraer_campo_conductor r ''unidad_constructiva'' = '''' \<longleftrightarrow>
   \<not> (\<exists>(key, valor) \<in> set r. valor_presente valor \<and>
      normalizar_clave key \<in> set [''unidadconstructiva'', ''uc''])"
  using uc_presente [of r] by blast

text \<open>
  Claim C1, amended. A field of a row is present when some column whose header normalises
  (lower case, without line breaks, spaces and underscores) to one of the names of the
  field holds a value that is truthy, not blank and not one of nan, none, null. The names
  are codigofidgit with an accented o, codigofidgit, fidgit and codigofidrep with an accented o for the reference code, and
  unidadconstructiva and uc for the construction unit. The two filters are disjoint but
  not exhaustive. A row goes to DECOMMISSION iff its reference code is present and its
  construction unit is not; it goes to NEW iff its construction unit is present, with or
  without a reference code; a row with neither field is dropped by the validation step of
  \<open>generar_txt_linea\<close> and reaches neither file. Every row is counted in exactly one of
  the three groups.
\<close>

theorem particion_nuevo_baja:
  "filtrar_baja datos =
     filter (\<lambda>r. (\<exists>(key, valor) \<in> set r. valor_presente valor \<and>
                     normalizar_clave key \<in> set [''c'' @ [CHR 0xF3] @ ''digofidgit'', ''codigofidgit'',
                                                  ''fidgit'', ''c'' @ [CHR 0xF3] @ ''digofidrep'']) \<and>
                  \<not> (\<exists>(key, valor) \<in> set r. valor_presente valor \<and>
                     normalizar_clave key \<in> set [''unidadconstructiva'', ''uc''])) datos
   \<and> filtrar_nuevo datos =
     filter (\<lambda>r. \<exists>(key, valor) \<in> set r. valor_presente valor \<and>
                     normalizar_clave key \<in> set [''unidadconstructiva'', ''uc'']) datos
   \<and> set (filtrar_nuevo datos) \<inter> set (filtrar_baja datos) = {}
   \<and> length (filtrar_nuevo datos) + length (filtrar_baja datos)
      + length (filter (\<lambda>r. \<not> (\<exists>(key, valor) \<in> set r. valor_presente valor \<and>
                     normalizar_clave key \<in> set [''c'' @ [CHR 0xF3] @ ''digofidgit'', ''codigofidgit'',
                                                  ''fidgit'', ''c'' @ [CHR 0xF3] @ ''digofidrep'']) \<and>
                  \<not> (\<exists>(key, valor) \<in> set r. valor_presente valor \<and>
                     normalizar_clave key \<in> set [''unidadconstructiva'', ''uc''])) datos)
      = length datos"
proof -
  have b: "filtrar_baja datos =
     filter (\<lambda>r. extraer_campo_conductor r ''codigo_fid_git'' \<noteq> '''' \<and>
                  extraer_campo_conductor r ''unidad_constructiva'' = '''') datos"
    by (rule filtrar_baja_filter)
  have n: "filtrar_nuevo datos =
     filter (\<lambda>r. extraer_campo_conductor r ''unidad_constructiva'' \<noteq> '''') datos"
    by (rule filtrar_nuevo_filter)
  have d: "set (filtrar_nuevo datos) \<inter> set (filtrar_baja datos) = {}"
    unfolding b n by auto
  have t: "length (filtrar_nuevo datos) + length (filtrar_baja datos)
      + length (filter (\<lambda>r. extraer_campo_conductor r ''codigo_fid_git'' = '''' \<and>
                            extraer_campo_conductor r ''unidad_constructiva'' = '''') datos)
      = length datos"
    unfolding b n by (rule tres_partes)
  show ?thesis
    apply (intro conjI)
       apply (subst b, simp only: fid_presente uc_ausente)
      apply (subst n, simp only: uc_presente)
     apply (rule d)
    apply (rule t [unfolded fid_ausente uc_ausente])
    done
qed

text \<open>
  Claim C1 as stated fails: a row with neither a reference code nor a construction unit is
  not NEW; it is in neither partition.
\<close>

theorem fila_sin_fid_ni_uc_counterexample:
  "filtrar_nuevo [fila_sin_fid_ni_uc] = [] \<and> filtrar_baja [fila_sin_fid_ni_uc] = []"
  by code_simp

lemma ejemplos_router:
  "filtrar_nuevo [fila_baja, fila_reposicion, fila_nueva, fila_sin_fid_ni_uc] = [fila_reposicion, fila_nueva]"
  "filtrar_baja [fila_baja, fila_reposicion, fila_nueva, fila_sin_fid_ni_uc] = [fila_baja]"
  by code_simp+

lemma ejemplo_mayusculas:
  "filtrar_baja [fila_baja_mayusculas] = [fila_baja_mayusculas]"
  "filtrar_nuevo [fila_baja_mayusculas] = []"
  "extraer_campo_conductor fila_baja_mayusculas ''codigo_fid_git'' = ''40771''"
  by code_simp+


subsection \<open>Classifier\<close>

lemma regla_fechas_otros:
  "campo \<noteq> ''FECHA_INSTALACION'' \<Longrightarrow> campo \<noteq> ''FECHA_OPERACION'' \<Longrightarrow>
   regla_fechas registro rc campo = rc campo"
  by (simp add: regla_fechas_def Let_def)

lemma regla_codigo_material_otros:
  "campo \<noteq> ''CODIGO_MATERIAL'' \<Longrightarrow> regla_codigo_material k registro uc rc campo = rc campo"
  by (simp add: regla_codigo_material_def Let_def)

lemma regla_estado_salud_otros:
  "campo \<noteq> ''ESTADO_SALUD'' \<Longrightarrow> regla_estado_salud k registro rc campo = rc campo"
  by (simp add: regla_estado_salud_def Let_def)

lemmas reglas_otros = regla_fechas_otros regla_codigo_material_otros regla_estado_salud_otros


lemma armar_tipo:
  "armar_registro k ahora r p uc nt tpo tp obs ''TIPO'' = Some (PyStr (clasificar_tipo_por_uc k (upper uc)))"
  by (simp add: armar_registro_def Let_def reglas_otros)

lemma armar_estado_salud:
  "armar_registro k ahora r p uc nt tpo tp obs ''ESTADO_SALUD'' =
     (if convertir_estado_salud k (dict_get r ''ESTADO_SALUD'' (PyStr '''')) \<noteq> ''''
      then Some (PyStr (convertir_estado_salud k (dict_get r ''ESTADO_SALUD'' (PyStr ''''))))
      else r ''ESTADO_SALUD'')"
  by (simp add: armar_registro_def Let_def)
     (simp add: regla_estado_salud_def Let_def reglas_otros)


lemma clasificar_Inr:
  "clasificar_estructura k ahora r = Inr r' \<Longrightarrow>
   \<exists>p uc nt tpo tp obs. r' = armar_registro k ahora r p uc nt tpo tp obs \<and>
      clasificar_propietario (dict_get r ''PROPIETARIO'' (PyStr '''')) = Inr p \<and>
      campo_strip r ''UC'' = Inr uc \<and> campo_strip r ''NIVEL_TENSION'' = Inr nt \<and>
      campo_strip r ''OBSERVACIONES'' = Inr obs"
  by (auto simp: clasificar_estructura_def Let_def split: sum.splits if_splits prod.splits)

lemma campo_strip_Inr:
  "campo_strip r c = Inr s \<Longrightarrow> \<exists>v. dict_get r c (PyStr '''') = PyStr v \<and> s = strip v"
  by (auto simp: campo_strip_def split: pyval.splits)


lemma clasificar_tipo_spec:
  assumes "reglas_prioritarias k = reglas_prioritarias constantes_spec"
      and "valor_defecto_tipo k = valor_defecto_tipo constantes_spec"
  shows "clasificar_tipo_por_uc k u =
     (if prefix ''N1'' u then ''SECUNDARIO''
      else if prefix ''N2'' u \<or> prefix ''N3'' u \<or> prefix ''N4'' u then ''PRIMARIO''
      else ''SECUNDARIO'')"
  using assms by (auto simp: clasificar_tipo_por_uc_def constantes_spec_def)

text \<open>
  Claim C3. With the type rules of the specification, whatever the other tables and the
  other fields are, the TYPE of the classified record is a function of the construction
  unit alone: SECUNDARIO when the trimmed, upper-cased code starts with N1, PRIMARIO when
  it starts with N2, N3 or N4, and the default SECUNDARIO when it is empty or matches no
  pattern; it is always one of these two values.
\<close>

theorem tipo_determinado_por_uc:
  assumes "clasificar_estructura k ahora r = Inr r'"
      and "reglas_prioritarias k = reglas_prioritarias constantes_spec"
      and "valor_defecto_tipo k = valor_defecto_tipo constantes_spec"
  shows "\<exists>uc. dict_get r ''UC'' (PyStr '''') = PyStr uc \<and>
           r' ''TIPO'' = Some (PyStr
             (if prefix ''N1'' (upper (strip uc)) then ''SECUNDARIO''
              else if prefix ''N2'' (upper (strip uc)) \<or> prefix ''N3'' (upper (strip uc)) \<or>
                      prefix ''N4'' (upper (strip uc)) then ''PRIMARIO''
              else ''SECUNDARIO''))"
proof -
  from clasificar_Inr [OF assms(1)] obtain p uc nt tpo tp obs where
    r': "r' = armar_registro k ahora r p uc nt tpo tp obs" and uc: "campo_strip r ''UC'' = Inr uc"
    by blast
  from campo_strip_Inr [OF uc] obtain v where v: "dict_get r ''UC'' (PyStr '''') = PyStr v" "uc = strip v"
    by blast
  show ?thesis
    using v r' by (simp add: armar_tipo clasificar_tipo_spec [OF assms(2,3)])
qed








lemma clasificar_existe:
  "(case clasificar_estructura k ahora r of Inr r' \<Rightarrow> True | Inl e \<Rightarrow> False) \<Longrightarrow>
   \<exists>r'. clasificar_estructura k ahora r = Inr r'"
  by (cases "clasificar_estructura k ahora r") auto



text \<open>
  Claim C5, evaluated on the code: the health status 7 is not recognised,
  \<open>_convertir_estado_salud\<close> returns the empty string for it, and the classified record
  still holds 7, because rule 8 writes the converted value only when it is not empty.
\<close>

theorem estado_salud_no_reconocido_se_conserva:
  "convertir_estado_salud constantes_spec (PyStr ''7'') = '''' \<and>
   (case clasificar_estructura constantes_spec ahora_ej registro_salud_7 of
      Inr r' \<Rightarrow> r' ''ESTADO_SALUD'' = Some (PyStr ''7'')
    | Inl e \<Rightarrow> False)"
  by code_simp

text \<open>
  The input 7 is a true value that is none of the null spellings, so the conversion does
  look it up in the table before it answers with the empty string.
\<close>

theorem estado_salud_no_reconocido_se_conserva_witness:
  "truthy (PyStr ''7'') \<and>
   upper (strip (py_str (PyStr ''7''))) \<notin> set ['''', ''NAN'', ''NONE''] \<and>
   map_of (estados_salud constantes_spec) ''7'' = None \<and>
   convertir_estado_salud constantes_spec (PyStr ''7'') = ''''"
proof -
  have "truthy (PyStr ''7'')"
    and "upper (strip (py_str (PyStr ''7''))) \<notin> set ['''', ''NAN'', ''NONE'']"
    and "map_of (estados_salud constantes_spec) ''7'' = None"
    by code_simp+
  then show ?thesis
    using estado_salud_no_reconocido_se_conserva by simp
qed

theorem tipo_determinado_por_uc_witness:
  "(\<exists>r'. clasificar_estructura constantes_spec ahora_ej registro_ej = Inr r' \<and>
         r' ''TIPO'' = Some (PyStr ''PRIMARIO''))
   \<and> (\<exists>r'. clasificar_estructura constantes_ej ahora_ej registro_salud_7 = Inr r' \<and>
         r' ''TIPO'' = Some (PyStr ''SECUNDARIO''))"
proof -
  have "case clasificar_estructura constantes_spec ahora_ej registro_ej of
          Inr r' \<Rightarrow> True | Inl e \<Rightarrow> False"
    by code_simp
  then obtain r1 where r1: "clasificar_estructura constantes_spec ahora_ej registro_ej = Inr r1"
    using clasificar_existe by blast
  have "case clasificar_estructura constantes_ej ahora_ej registro_salud_7 of
          Inr r' \<Rightarrow> True | Inl e \<Rightarrow> False"
    by code_simp
  then obtain r2 where r2: "clasificar_estructura constantes_ej ahora_ej registro_salud_7 = Inr r2"
    using clasificar_existe by blast
  have k: "reglas_prioritarias constantes_ej = reglas_prioritarias constantes_spec"
          "valor_defecto_tipo constantes_ej = valor_defecto_tipo constantes_spec"
    by (simp_all add: constantes_ej_def)
  have u1: "dict_get registro_ej ''UC'' (PyStr '''') = PyStr ''n3l75''"
    and u2: "dict_get registro_salud_7 ''UC'' (PyStr '''') = PyStr ''N1L75''"
    and s1: "upper (strip ''n3l75'') = ''N3L75''" and s2: "upper (strip ''N1L75'') = ''N1L75''"
    by code_simp+
  show ?thesis
    using tipo_determinado_por_uc [OF r1 refl refl] tipo_determinado_por_uc [OF r2 k] r1 r2
    by (simp add: u1 u2 s1 s2)
qed



subsection \<open>Strings\<close>

lemma strip_Nil [simp]: "strip [] = []"
  by (simp add: strip_def)

lemma dropWhile_hd: "dropWhile P xs \<noteq> [] \<Longrightarrow> \<not> P (hd (dropWhile P xs))"
  by (metis hd_dropWhile)

lemma strip_prefix_dropWhile: "prefix (strip s) (dropWhile is_space s)"
proof -
  let ?a = "dropWhile is_space s"
  have "rev ?a = takeWhile is_space (rev ?a) @ dropWhile is_space (rev ?a)"
    by simp
  then have "?a = rev (dropWhile is_space (rev ?a)) @ rev (takeWhile is_space (rev ?a))"
    by (metis rev_append rev_rev_ident)
  then show ?thesis
    unfolding strip_def by (metis prefixI)
qed

lemma strip_hd: "strip s \<noteq> [] \<Longrightarrow> \<not> is_space (hd (strip s))"
proof -
  assume ne: "strip s \<noteq> []"
  from strip_prefix_dropWhile [of s] obtain r where r: "dropWhile is_space s = strip s @ r"
    by (auto simp: prefix_def)
  then have "dropWhile is_space s \<noteq> []" using ne by auto
  then have "\<not> is_space (hd (dropWhile is_space s))" by (rule dropWhile_hd)
  then show ?thesis using r ne by simp
qed

lemma strip_last: "strip s \<noteq> [] \<Longrightarrow> \<not> is_space (last (strip s))"
proof -
  assume ne: "strip s \<noteq> []"
  let ?d = "dropWhile is_space (rev (dropWhile is_space s))"
  have d: "?d \<noteq> []" using ne by (simp add: strip_def)
  then have "\<not> is_space (hd ?d)" by (rule dropWhile_hd)
  moreover have "last (strip s) = hd ?d"
    using d by (simp add: strip_def last_rev)
  ultimately show ?thesis by simp
qed

lemma strip_id:
  assumes "t \<noteq> []" "\<not> is_space (hd t)" "\<not> is_space (last t)"
  shows "strip t = t"
proof -
  have a: "dropWhile is_space t = t"
    using assms(1,2) by (cases t) auto
  have "rev t \<noteq> []" "\<not> is_space (hd (rev t))"
    using assms(1,3) by (simp_all add: hd_rev)
  then have "dropWhile is_space (rev t) = rev t"
    by (cases "rev t") auto
  then show ?thesis by (simp add: strip_def a)
qed

lemma strip_idem [simp]: "strip (strip s) = strip s"
proof (cases "strip s = []")
  case True
  then show ?thesis by simp
next
  case False
  then show ?thesis by (intro strip_id strip_hd strip_last)
qed

lemma strip_sin_espacios:
  assumes "\<forall>c \<in> set s. \<not> is_space c"
  shows "strip s = s"
proof (cases "s = []")
  case True
  then show ?thesis by simp
next
  case False
  then show ?thesis using assms by (intro strip_id) auto
qed

lemma is_digit_no_space: "is_digit c \<Longrightarrow> \<not> is_space c"
  unfolding is_digit_def is_space_def by (simp; blast)

lemma is_digit_digit_char [simp]: "is_digit (digit_char n)"
proof -
  have "n mod 10 < length ''0123456789''" by simp
  then have "''0123456789'' ! (n mod 10) \<in> set ''0123456789''" by (rule nth_mem)
  then show ?thesis by (simp only: is_digit_def digit_char_def)
qed


lemma upper_c_digit: "is_digit c \<Longrightarrow> upper_c c = c"
  unfolding is_digit_def upper_c_def ascii_mayusculas_def ascii_minusculas_def
    latin1_mayusculas_def latin1_minusculas_def
  by (simp; elim disjE; simp)


subsection \<open>Dates\<close>

lemma es_dd_mm_yyyy_strftime [simp]: "es_dd_mm_yyyy (strftime_dmY f)"
  by (simp add: es_dd_mm_yyyy_def strftime_dmY_def dos_digitos_def cuatro_digitos_def)

lemma es_dd_mm_yyyy_chars:
  "es_dd_mm_yyyy x \<Longrightarrow> x \<noteq> [] \<and> length x = 10 \<and> (\<forall>c \<in> set x. is_digit c \<or> c = CHR ''/'')"
  by (auto simp: es_dd_mm_yyyy_def split: list.splits)

lemma es_dd_mm_yyyy_strip: "es_dd_mm_yyyy x \<Longrightarrow> strip x = x"
proof -
  assume "es_dd_mm_yyyy x"
  then have "\<forall>c \<in> set x. is_digit c \<or> c = CHR ''/''"
    using es_dd_mm_yyyy_chars by blast
  moreover have "\<not> is_space CHR ''/''" by (simp add: is_space_def)
  ultimately have "\<forall>c \<in> set x. \<not> is_space c"
    using is_digit_no_space by blast
  then show ?thesis by (rule strip_sin_espacios)
qed

lemma formatear_fecha_dd_mm_yyyy:
  "es_dd_mm_yyyy x \<Longrightarrow> formatear_fecha (PyStr x) = x"
  using es_dd_mm_yyyy_chars [of x] by (auto simp: formatear_fecha_def es_dd_mm_yyyy_strip)

lemma primer_formato_forma:
  "primer_formato formatos s = Some x \<Longrightarrow> es_dd_mm_yyyy x"
  by (induction formatos) (auto split: option.splits)

lemma formatear_fecha_forma:
  "formatear_fecha v = '''' \<or> es_dd_mm_yyyy (formatear_fecha v)"
proof (cases v)
  case PyNone
  then show ?thesis by (simp add: formatear_fecha_def)
next
  case (PyBool b)
  have "es_dd_mm_yyyy ''31/12/1899''" by code_simp
  then show ?thesis using PyBool by (simp add: formatear_fecha_def Let_def)
next
  case (PyStr s)
  then show ?thesis
    by (auto simp: formatear_fecha_def Let_def split: option.splits dest: primer_formato_forma)
qed

lemma formatear_fecha_idem:
  "formatear_fecha (PyStr (formatear_fecha v)) = formatear_fecha v"
proof (cases "formatear_fecha v = ''''")
  case True
  then show ?thesis by (simp add: formatear_fecha_def)
next
  case False
  then have "es_dd_mm_yyyy (formatear_fecha v)"
    using formatear_fecha_forma by blast
  then show ?thesis by (rule formatear_fecha_dd_mm_yyyy)
qed







subsection \<open>The two date formatters\<close>







































lemma formateadores_difieren_mas:
  "formatear_fecha (PyStr ''pendiente'') = ''''"
  "formatear_fecha_base (PyStr ''pendiente'') = ''01/01/1900''"
  "formatear_fecha (PyStr ''15-03-2024'') = ''''"
  "formatear_fecha_base (PyStr ''15-03-2024'') = ''15/03/2024''"
  "formatear_fecha (PyStr ''05/13/2024'') = ''05/13/2024''"
  "formatear_fecha_base (PyStr ''05/13/2024'') = ''13/05/2024''"
  "formatear_fecha (PyStr ''2024-01-15 10:30:00'') = ''15/01/2024''"
  "formatear_fecha_base (PyStr ''2024-01-15 10:30:00'') = ''01/01/1900''"
  by code_simp+

subsection \<open>Validation and generation\<close>

lemma idx_excel_de_upt: "j < n \<Longrightarrow> idx_excel_de [0..<n] j = j"
  by (simp add: idx_excel_de_def)

lemma add_err_campos [simp]:
  "archivo (add_err f t) = ''Excel''" "hoja (add_err f t) = ''Estructuras_N1-N2-N3''"
  "fila (add_err f t) = f" "descripcion (add_err f t) = t"
  by (simp_all add: add_err_def)

lemmas errores_def = error_enlace_vacio_def error_enlace_sin_p_def error_enlace_repetido_def
  error_uc_vacia_def error_uc_sin_n_def

lemma uc_raw_de_enlace [simp]: "uc_raw_de (r(''ENLACE'' \<mapsto> v)) = uc_raw_de r"
  by (simp add: uc_raw_de_def dict_get_def)

text \<open>The two components of a step of the first loop.\<close>

lemma validar_enlaces_errores:
  "fst (validar_enlaces raw idx i (r # rs) vistos) =
     (if extraer_enlace raw (idx_excel_de idx i) r = ''''
      then error_enlace_vacio (idx_excel_de idx i + 2) #
           fst (validar_enlaces raw idx (i + 1) rs vistos)
      else if \<not> prefix ''P'' (extraer_enlace raw (idx_excel_de idx i) r)
      then error_enlace_sin_p (idx_excel_de idx i + 2) #
           fst (validar_enlaces raw idx (i + 1) rs vistos)
      else case vistos (extraer_enlace raw (idx_excel_de idx i) r) of
             Some f1 \<Rightarrow>
               error_enlace_repetido f1 (idx_excel_de idx i + 2)
                 (extraer_enlace raw (idx_excel_de idx i) r) #
               fst (validar_enlaces raw idx (i + 1) rs vistos)
           | None \<Rightarrow>
               fst (validar_enlaces raw idx (i + 1) rs
                      (vistos(extraer_enlace raw (idx_excel_de idx i) r \<mapsto> idx_excel_de idx i + 2))))"
  by (simp add: Let_def case_prod_beta split: option.splits)

lemma validar_enlaces_registros:
  "snd (validar_enlaces raw idx i (r # rs) vistos) =
     (if extraer_enlace raw (idx_excel_de idx i) r = '''' \<or>
         \<not> prefix ''P'' (extraer_enlace raw (idx_excel_de idx i) r)
      then r # snd (validar_enlaces raw idx (i + 1) rs vistos)
      else case vistos (extraer_enlace raw (idx_excel_de idx i) r) of
             Some f1 \<Rightarrow> r # snd (validar_enlaces raw idx (i + 1) rs vistos)
           | None \<Rightarrow>
               r(''ENLACE'' \<mapsto> PyStr (extraer_enlace raw (idx_excel_de idx i) r)) #
               snd (validar_enlaces raw idx (i + 1) rs
                      (vistos(extraer_enlace raw (idx_excel_de idx i) r \<mapsto> idx_excel_de idx i + 2))))"
  by (simp add: Let_def case_prod_beta split: option.splits)

declare validar_enlaces.simps(2) [simp del]

lemma validar_enlaces_uc:
  "map uc_raw_de (snd (validar_enlaces raw idx i regs vistos)) = map uc_raw_de regs"
proof (induction regs arbitrary: i vistos)
  case Nil
  then show ?case by simp
next
  case (Cons r rs)
  show ?case
    unfolding validar_enlaces_registros
    by (simp add: Cons.IH split: option.splits)
qed

lemma validar_enlaces_length:
  "length (snd (validar_enlaces raw idx i regs vistos)) = length regs"
  using validar_enlaces_uc [of raw idx i regs vistos, THEN arg_cong, of length] by simp

lemma validar_uc_map:
  "map uc_raw_de rs = map uc_raw_de rs' \<Longrightarrow> validar_uc idx i rs = validar_uc idx i rs'"
proof (induction rs arbitrary: rs' i)
  case Nil
  then show ?case by simp
next
  case (Cons r rs)
  then obtain r' rs'' where "rs' = r' # rs''" by (cases rs') auto
  with Cons show ?case by (simp add: Let_def)
qed

lemma validar_uc_tras_enlaces:
  "validar_uc idx i (snd (validar_enlaces raw idx i' regs vistos)) = validar_uc idx i regs"
  by (rule validar_uc_map) (rule validar_enlaces_uc)

lemma fila_siguiente:
  assumes "fila e \<in> (\<lambda>j. idx_excel_de idx (i + 1 + j) + 2) ` {..<length rs}"
  shows "fila e \<in> (\<lambda>j. idx_excel_de idx (i + j) + 2) ` {..<length (r # rs)}"
proof -
  from assms obtain j where "j < length rs" "fila e = idx_excel_de idx (i + 1 + j) + 2"
    by auto
  then show ?thesis by (auto intro!: image_eqI [where x = "Suc j"])
qed

lemma fila_primera:
  "f = idx_excel_de idx i + 2 \<Longrightarrow> f \<in> (\<lambda>j. idx_excel_de idx (i + j) + 2) ` {..<length (r # rs)}"
  by (auto intro!: image_eqI [where x = 0])

lemma errores_forma [simp]:
  "archivo (error_enlace_vacio f) = ''Excel''" "hoja (error_enlace_vacio f) = ''Estructuras_N1-N2-N3''"
  "fila (error_enlace_vacio f) = f"
  "archivo (error_enlace_sin_p f) = ''Excel''" "hoja (error_enlace_sin_p f) = ''Estructuras_N1-N2-N3''"
  "fila (error_enlace_sin_p f) = f"
  "archivo (error_enlace_repetido f1 f x) = ''Excel''"
  "hoja (error_enlace_repetido f1 f x) = ''Estructuras_N1-N2-N3''"
  "fila (error_enlace_repetido f1 f x) = f"
  "archivo (error_uc_vacia f) = ''Excel''" "hoja (error_uc_vacia f) = ''Estructuras_N1-N2-N3''"
  "fila (error_uc_vacia f) = f"
  "archivo (error_uc_sin_n f) = ''Excel''" "hoja (error_uc_sin_n f) = ''Estructuras_N1-N2-N3''"
  "fila (error_uc_sin_n f) = f"
  unfolding errores_def by (rule add_err_campos)+

lemma validar_enlaces_forma:
  "e \<in> set (fst (validar_enlaces raw idx i regs vistos)) \<Longrightarrow>
   archivo e = ''Excel'' \<and> hoja e = ''Estructuras_N1-N2-N3'' \<and>
   fila e \<in> (\<lambda>j. idx_excel_de idx (i + j) + 2) ` {..<length regs}"
proof (induction regs arbitrary: i vistos)
  case Nil
  then show ?case by simp
next
  case (Cons r rs)
  have "(archivo e = ''Excel'' \<and> hoja e = ''Estructuras_N1-N2-N3'' \<and> fila e = idx_excel_de idx i + 2)
        \<or> (\<exists>v. e \<in> set (fst (validar_enlaces raw idx (i + 1) rs v)))"
    using Cons.prems unfolding validar_enlaces_errores
    by (fastforce split: if_splits option.splits)
  then show ?case
  proof (elim disjE conjE exE)
    assume "fila e = idx_excel_de idx i + 2" "archivo e = ''Excel''" "hoja e = ''Estructuras_N1-N2-N3''"
    then show ?thesis using fila_primera [of "fila e" idx i r rs] by simp
  next
    fix v assume "e \<in> set (fst (validar_enlaces raw idx (i + 1) rs v))"
    from Cons.IH [OF this] show ?thesis using fila_siguiente [of e idx i rs r] by simp
  qed
qed

lemma validar_uc_forma:
  "e \<in> set (validar_uc idx i regs) \<Longrightarrow>
   archivo e = ''Excel'' \<and> hoja e = ''Estructuras_N1-N2-N3'' \<and>
   fila e \<in> (\<lambda>j. idx_excel_de idx (i + j) + 2) ` {..<length regs}"
proof (induction regs arbitrary: i)
  case Nil
  then show ?case by simp
next
  case (Cons r rs)
  have "(archivo e = ''Excel'' \<and> hoja e = ''Estructuras_N1-N2-N3'' \<and> fila e = idx_excel_de idx i + 2)
        \<or> e \<in> set (validar_uc idx (i + 1) rs)"
    using Cons.prems by (fastforce simp: Let_def split: if_splits)
  then show ?case
  proof (elim disjE conjE)
    assume "fila e = idx_excel_de idx i + 2" "archivo e = ''Excel''" "hoja e = ''Estructuras_N1-N2-N3''"
    then show ?thesis using fila_primera [of "fila e" idx i r rs] by simp
  next
    assume "e \<in> set (validar_uc idx (i + 1) rs)"
    from Cons.IH [OF this] show ?thesis using fila_siguiente [of e idx i rs r] by simp
  qed
qed

lemma validar_enlaces_resto:
  "(\<And>v. e \<in> set (fst (validar_enlaces raw idx (Suc i) rs v))) \<Longrightarrow>
   e \<in> set (fst (validar_enlaces raw idx i (r # rs) vistos))"
  by (simp add: validar_enlaces_errores split: option.splits)

lemma enlace_vacio_detectado:
  "j < length regs \<Longrightarrow> extraer_enlace raw (idx_excel_de idx (i + j)) (regs ! j) = '''' \<Longrightarrow>
   error_enlace_vacio (idx_excel_de idx (i + j) + 2) \<in> set (fst (validar_enlaces raw idx i regs vistos))"
proof (induction regs arbitrary: i j vistos)
  case Nil
  then show ?case by simp
next
  case (Cons r rs)
  show ?case
  proof (cases j)
    case 0
    with Cons.prems show ?thesis by (simp add: validar_enlaces_errores)
  next
    case (Suc j')
    with Cons.prems Cons.IH [of j' "Suc i"] show ?thesis
      by (intro validar_enlaces_resto) simp
  qed
qed

lemma enlace_sin_p_detectado:
  "j < length regs \<Longrightarrow> extraer_enlace raw (idx_excel_de idx (i + j)) (regs ! j) \<noteq> '''' \<Longrightarrow>
   \<not> prefix ''P'' (extraer_enlace raw (idx_excel_de idx (i + j)) (regs ! j)) \<Longrightarrow>
   error_enlace_sin_p (idx_excel_de idx (i + j) + 2) \<in> set (fst (validar_enlaces raw idx i regs vistos))"
proof (induction regs arbitrary: i j vistos)
  case Nil
  then show ?case by simp
next
  case (Cons r rs)
  show ?case
  proof (cases j)
    case 0
    with Cons.prems show ?thesis by (simp add: validar_enlaces_errores)
  next
    case (Suc j')
    with Cons.prems Cons.IH [of j' "Suc i"] show ?thesis
      by (intro validar_enlaces_resto) simp
  qed
qed

lemma enlace_visto_detectado:
  "vistos x = Some f \<Longrightarrow> j < length regs \<Longrightarrow>
   extraer_enlace raw (idx_excel_de idx (i + j)) (regs ! j) = x \<Longrightarrow> x \<noteq> '''' \<Longrightarrow>
   prefix ''P'' x \<Longrightarrow>
   error_enlace_repetido f (idx_excel_de idx (i + j) + 2) x
     \<in> set (fst (validar_enlaces raw idx i regs vistos))"
proof (induction regs arbitrary: i j vistos)
  case Nil
  then show ?case by simp
next
  case (Cons r rs)
  show ?case
  proof (cases j)
    case 0
    with Cons.prems show ?thesis by (simp add: validar_enlaces_errores)
  next
    case (Suc j')
    have resto: "error_enlace_repetido f (idx_excel_de idx (i + j) + 2) x
                   \<in> set (fst (validar_enlaces raw idx (Suc i) rs v))" if "v x = Some f" for v
      using Cons.IH [of v j' "Suc i", OF that] Cons.prems Suc by simp
    show ?thesis
    proof (cases "vistos (extraer_enlace raw (idx_excel_de idx i) r)")
      case None
      with Cons.prems(1) have "extraer_enlace raw (idx_excel_de idx i) r \<noteq> x" by auto
      with Cons.prems(1)
      have "(vistos(extraer_enlace raw (idx_excel_de idx i) r \<mapsto> idx_excel_de idx i + 2)) x = Some f"
        by simp
      with resto [of "vistos(extraer_enlace raw (idx_excel_de idx i) r \<mapsto> idx_excel_de idx i + 2)"]
           resto [of vistos] Cons.prems(1) None
      show ?thesis
        by (simp add: validar_enlaces_errores)
    next
      case (Some g)
      with resto [of vistos] Cons.prems(1) show ?thesis by (simp add: validar_enlaces_errores)
    qed
  qed
qed

lemma enlace_repetido_detectado:
  "j1 < j2 \<Longrightarrow> j2 < length regs \<Longrightarrow>
   extraer_enlace raw (idx_excel_de idx (i + j1)) (regs ! j1) = x \<Longrightarrow>
   extraer_enlace raw (idx_excel_de idx (i + j2)) (regs ! j2) = x \<Longrightarrow> x \<noteq> '''' \<Longrightarrow>
   prefix ''P'' x \<Longrightarrow>
   \<exists>f1. error_enlace_repetido f1 (idx_excel_de idx (i + j2) + 2) x
           \<in> set (fst (validar_enlaces raw idx i regs vistos))"
proof (induction regs arbitrary: i j1 j2 vistos)
  case Nil
  then show ?case by simp
next
  case (Cons r rs)
  from Cons.prems(1) obtain j2' where j2: "j2 = Suc j2'" by (cases j2) auto
  show ?case
  proof (cases j1)
    case 0
    with Cons.prems have x: "extraer_enlace raw (idx_excel_de idx i) r = x" by simp
    have resto: "error_enlace_repetido f (idx_excel_de idx (i + j2) + 2) x
                   \<in> set (fst (validar_enlaces raw idx (Suc i) rs v))" if "v x = Some f" for v f
      using enlace_visto_detectado [of v x f j2' rs raw idx "Suc i", OF that] Cons.prems j2 by simp
    show ?thesis
    proof (cases "vistos x")
      case None
      with resto [of "vistos(x \<mapsto> idx_excel_de idx i + 2)" "idx_excel_de idx i + 2"] x Cons.prems(5,6)
      show ?thesis by (auto simp: validar_enlaces_errores)
    next
      case (Some f)
      with resto [of vistos f] x Cons.prems(5,6)
      show ?thesis by (auto simp: validar_enlaces_errores)
    qed
  next
    case (Suc j1')
    have "\<exists>f1. error_enlace_repetido f1 (idx_excel_de idx (i + j2) + 2) x
                 \<in> set (fst (validar_enlaces raw idx (Suc i) rs v))" for v
      using Cons.IH [of j1' j2' "Suc i" v] Cons.prems Suc j2 by simp
    then show ?thesis
      by (simp add: validar_enlaces_errores split: option.splits) blast
  qed
qed

lemma uc_vacia_detectada:
  "j < length regs \<Longrightarrow> uc_raw_de (regs ! j) = '''' \<Longrightarrow>
   error_uc_vacia (idx_excel_de idx (i + j) + 2) \<in> set (validar_uc idx i regs)"
proof (induction regs arbitrary: i j)
  case Nil
  then show ?case by simp
next
  case (Cons r rs)
  show ?case
  proof (cases j)
    case 0
    with Cons.prems show ?thesis by (simp add: Let_def)
  next
    case (Suc j')
    with Cons.prems Cons.IH [of j' "Suc i"] show ?thesis by (simp add: Let_def)
  qed
qed

lemma uc_sin_n_detectada:
  "j < length regs \<Longrightarrow> uc_raw_de (regs ! j) \<noteq> '''' \<Longrightarrow> \<not> prefix ''N'' (uc_raw_de (regs ! j)) \<Longrightarrow>
   error_uc_sin_n (idx_excel_de idx (i + j) + 2) \<in> set (validar_uc idx i regs)"
proof (induction regs arbitrary: i j)
  case Nil
  then show ?case by simp
next
  case (Cons r rs)
  show ?case
  proof (cases j)
    case 0
    with Cons.prems show ?thesis by (simp add: Let_def)
  next
    case (Suc j')
    with Cons.prems Cons.IH [of j' "Suc i"] show ?thesis by (simp add: Let_def)
  qed
qed

text \<open>The errors of the specific validations, in terms of the two loops.\<close>

lemma validaciones_txt_especificas_errores:
  "fst (validaciones_txt_especificas datos raw idx) =
     fst (validar_enlaces raw idx 0 datos Map.empty) @ validar_uc idx 0 datos"
  by (simp add: validaciones_txt_especificas_def case_prod_beta validar_uc_tras_enlaces)

lemma ejecutar_validaciones_integradas_errores:
  "fst (ejecutar_validaciones_integradas errores_datos datos raw idx) =
     errores_datos @ fst (validaciones_txt_especificas datos raw idx) @
     fst (validaciones_txt_especificas datos raw idx)"
  by (simp add: ejecutar_validaciones_integradas_def case_prod_beta)

lemma filas_upt:
  "f \<in> (\<lambda>j. idx_excel_de [0..<n] (0 + j) + 2) ` {..<n} \<Longrightarrow> 2 \<le> f \<and> f < n + 2"
  by (auto simp: idx_excel_de_def)

lemma especificas_forma:
  assumes "e \<in> set (fst (validaciones_txt_especificas datos raw [0..<length datos]))"
  shows "archivo e = ''Excel'' \<and> hoja e = ''Estructuras_N1-N2-N3'' \<and> 2 \<le> fila e \<and>
         fila e < length datos + 2"
proof -
  from assms have "e \<in> set (fst (validar_enlaces raw [0..<length datos] 0 datos Map.empty)) \<or>
                   e \<in> set (validar_uc [0..<length datos] 0 datos)"
    by (simp add: validaciones_txt_especificas_errores)
  then show ?thesis
    using validar_enlaces_forma [of e raw "[0..<length datos]" 0 datos Map.empty]
          validar_uc_forma [of e "[0..<length datos]" 0 datos]
          filas_upt [of "fila e" "length datos"]
    by blast
qed

lemma generar_con_errores:
  assumes "datos \<noteq> []"
      and "fst (ejecutar_validaciones_integradas errores_datos datos raw [0..<length datos]) \<noteq> []"
  shows "generar_archivo_txt_coordinado tipo filename filepath errores_datos datos raw fs =
           (\<lparr>exito = False, archivo_generado = None, ruta_archivo = None, total_registros = 0,
             errores_validacion =
               fst (ejecutar_validaciones_integradas errores_datos datos raw [0..<length datos]),
             mensaje = ''Se encontraron '' @
               str_nat (length (fst (ejecutar_validaciones_integradas errores_datos datos raw
                                       [0..<length datos]))) @
               '' errores de validaci'' @ [CHR 0xF3] @ ''n''\<rparr>, fs)"
  using assms by (simp add: generar_archivo_txt_coordinado_def Let_def case_prod_beta)

lemma generar_sin_errores:
  assumes "datos \<noteq> []"
      and "fst (ejecutar_validaciones_integradas errores_datos datos raw [0..<length datos]) = []"
  shows "snd (generar_archivo_txt_coordinado tipo filename filepath errores_datos datos raw fs) =
           fs @ [(filepath, unir ''|'' (get_encabezados_txt tipo) #
                            map (linea_txt (get_encabezados_txt tipo))
                              (snd (ejecutar_validaciones_integradas errores_datos datos raw
                                      [0..<length datos])))]"
    and "exito (fst (generar_archivo_txt_coordinado tipo filename filepath errores_datos datos raw fs))"
  using assms by (simp_all add: generar_archivo_txt_coordinado_def Let_def case_prod_beta)

lemma errores_en_filas:
  assumes "j < length datos"
  shows "extraer_enlace raw j (datos ! j) = '''' \<Longrightarrow>
           error_enlace_vacio (j + 2) \<in> set (fst (validaciones_txt_especificas datos raw [0..<length datos]))"
    and "extraer_enlace raw j (datos ! j) \<noteq> '''' \<Longrightarrow> \<not> prefix ''P'' (extraer_enlace raw j (datos ! j)) \<Longrightarrow>
           error_enlace_sin_p (j + 2) \<in> set (fst (validaciones_txt_especificas datos raw [0..<length datos]))"
    and "extraer_enlace raw j (datos ! j) \<noteq> '''' \<Longrightarrow> prefix ''P'' (extraer_enlace raw j (datos ! j)) \<Longrightarrow>
         i < j \<Longrightarrow> extraer_enlace raw i (datos ! i) = extraer_enlace raw j (datos ! j) \<Longrightarrow>
           \<exists>f1. error_enlace_repetido f1 (j + 2) (extraer_enlace raw j (datos ! j))
                  \<in> set (fst (validaciones_txt_especificas datos raw [0..<length datos]))"
    and "uc_raw_de (datos ! j) = '''' \<Longrightarrow>
           error_uc_vacia (j + 2) \<in> set (fst (validaciones_txt_especificas datos raw [0..<length datos]))"
    and "uc_raw_de (datos ! j) \<noteq> '''' \<Longrightarrow> \<not> prefix ''N'' (uc_raw_de (datos ! j)) \<Longrightarrow>
           error_uc_sin_n (j + 2) \<in> set (fst (validaciones_txt_especificas datos raw [0..<length datos]))"
proof -
  note j = idx_excel_de_upt [OF assms]
  show "extraer_enlace raw j (datos ! j) = '''' \<Longrightarrow>
           error_enlace_vacio (j + 2) \<in> set (fst (validaciones_txt_especificas datos raw [0..<length datos]))"
    using enlace_vacio_detectado [of j datos raw "[0..<length datos]" 0 Map.empty] assms j
    by (simp add: validaciones_txt_especificas_errores)
  show "extraer_enlace raw j (datos ! j) \<noteq> '''' \<Longrightarrow> \<not> prefix ''P'' (extraer_enlace raw j (datos ! j)) \<Longrightarrow>
           error_enlace_sin_p (j + 2) \<in> set (fst (validaciones_txt_especificas datos raw [0..<length datos]))"
    using enlace_sin_p_detectado [of j datos raw "[0..<length datos]" 0 Map.empty] assms j
    by (simp add: validaciones_txt_especificas_errores)
  show "extraer_enlace raw j (datos ! j) \<noteq> '''' \<Longrightarrow> prefix ''P'' (extraer_enlace raw j (datos ! j)) \<Longrightarrow>
         i < j \<Longrightarrow> extraer_enlace raw i (datos ! i) = extraer_enlace raw j (datos ! j) \<Longrightarrow>
           \<exists>f1. error_enlace_repetido f1 (j + 2) (extraer_enlace raw j (datos ! j))
                  \<in> set (fst (validaciones_txt_especificas datos raw [0..<length datos]))"
  proof -
    assume a: "extraer_enlace raw j (datos ! j) \<noteq> ''''" "prefix ''P'' (extraer_enlace raw j (datos ! j))"
      "i < j" "extraer_enlace raw i (datos ! i) = extraer_enlace raw j (datos ! j)"
    with assms have i: "idx_excel_de [0..<length datos] i = i" by (simp add: idx_excel_de_def)
    from enlace_repetido_detectado [of i j datos raw "[0..<length datos]" 0
           "extraer_enlace raw j (datos ! j)" Map.empty] a assms i j
    show ?thesis by (auto simp: validaciones_txt_especificas_errores)
  qed
  show "uc_raw_de (datos ! j) = '''' \<Longrightarrow>
           error_uc_vacia (j + 2) \<in> set (fst (validaciones_txt_especificas datos raw [0..<length datos]))"
    using uc_vacia_detectada [of j datos "[0..<length datos]" 0] assms j
    by (simp add: validaciones_txt_especificas_errores)
  show "uc_raw_de (datos ! j) \<noteq> '''' \<Longrightarrow> \<not> prefix ''N'' (uc_raw_de (datos ! j)) \<Longrightarrow>
           error_uc_sin_n (j + 2) \<in> set (fst (validaciones_txt_especificas datos raw [0..<length datos]))"
    using uc_sin_n_detectada [of j datos "[0..<length datos]" 0] assms j
    by (simp add: validaciones_txt_especificas_errores)
qed

text \<open>
  Claim C9. For a batch that is not empty, the validation errors form a list of entries
  with a file, a sheet, a row and a description: those of the data validator followed by
  those of the link and construction unit checks, whose sheet is \<open>Estructuras_N1-N2-N3\<close> and
  whose row is the position of the record plus two. A record with an empty link, a link
  that does not start with P, a link already used by an earlier record, an empty
  construction unit or one that does not start with N has its entry in the list. When
  the list is not empty, \<open>generar_archivo_txt_coordinado\<close> returns \<open>exito = False\<close> with
  the list in \<open>errores_validacion\<close>, no file name, and the file system unchanged; when it
  is empty the file is written.
\<close>

theorem validacion_aborta_generacion:
  assumes "datos_finales \<noteq> []"
  shows "\<exists>errores registros.
     ejecutar_validaciones_integradas errores_datos datos_finales raw_datos_excel
       [0..<length datos_finales] = (errores, registros) \<and>
     (\<forall>e \<in> set errores.
        e \<in> set errores_datos \<or>
        archivo e = ''Excel'' \<and> hoja e = ''Estructuras_N1-N2-N3'' \<and> 2 \<le> fila e \<and>
        fila e < length datos_finales + 2) \<and>
     (\<forall>j < length datos_finales.
        (extraer_enlace raw_datos_excel j (datos_finales ! j) = '''' \<longrightarrow>
           error_enlace_vacio (j + 2) \<in> set errores) \<and>
        (extraer_enlace raw_datos_excel j (datos_finales ! j) \<noteq> '''' \<and>
         \<not> prefix ''P'' (extraer_enlace raw_datos_excel j (datos_finales ! j)) \<longrightarrow>
           error_enlace_sin_p (j + 2) \<in> set errores) \<and>
        (extraer_enlace raw_datos_excel j (datos_finales ! j) \<noteq> '''' \<and>
         prefix ''P'' (extraer_enlace raw_datos_excel j (datos_finales ! j)) \<and>
         (\<exists>i < j. extraer_enlace raw_datos_excel i (datos_finales ! i) =
                  extraer_enlace raw_datos_excel j (datos_finales ! j)) \<longrightarrow>
           (\<exists>f1. error_enlace_repetido f1 (j + 2)
                    (extraer_enlace raw_datos_excel j (datos_finales ! j)) \<in> set errores)) \<and>
        (uc_raw_de (datos_finales ! j) = '''' \<longrightarrow> error_uc_vacia (j + 2) \<in> set errores) \<and>
        (uc_raw_de (datos_finales ! j) \<noteq> '''' \<and> \<not> prefix ''N'' (uc_raw_de (datos_finales ! j)) \<longrightarrow>
           error_uc_sin_n (j + 2) \<in> set errores)) \<and>
     (errores \<noteq> [] \<longrightarrow>
        generar_archivo_txt_coordinado tipo_archivo filename filepath errores_datos datos_finales
          raw_datos_excel fs =
          (\<lparr>exito = False, archivo_generado = None, ruta_archivo = None, total_registros = 0,
            errores_validacion = errores,
            mensaje = ''Se encontraron '' @ str_nat (length errores) @
                      '' errores de validaci'' @ [CHR 0xF3] @ ''n''\<rparr>, fs)) \<and>
     (errores = [] \<longrightarrow>
        exito (fst (generar_archivo_txt_coordinado tipo_archivo filename filepath errores_datos
                      datos_finales raw_datos_excel fs)) \<and>
        snd (generar_archivo_txt_coordinado tipo_archivo filename filepath errores_datos
               datos_finales raw_datos_excel fs) =
          fs @ [(filepath, unir ''|'' (get_encabezados_txt tipo_archivo) #
                           map (linea_txt (get_encabezados_txt tipo_archivo)) registros)])"
proof -
  let ?v = "ejecutar_validaciones_integradas errores_datos datos_finales raw_datos_excel
              [0..<length datos_finales]"
  let ?s = "fst (validaciones_txt_especificas datos_finales raw_datos_excel [0..<length datos_finales])"
  have e: "fst ?v = errores_datos @ ?s @ ?s"
    by (rule ejecutar_validaciones_integradas_errores)
  have forma: "\<forall>e \<in> set (fst ?v).
        e \<in> set errores_datos \<or>
        archivo e = ''Excel'' \<and> hoja e = ''Estructuras_N1-N2-N3'' \<and> 2 \<le> fila e \<and>
        fila e < length datos_finales + 2"
    using especificas_forma [of _ datos_finales raw_datos_excel] unfolding e by auto
  have s: "set ?s \<subseteq> set (fst ?v)" unfolding e by auto
  have filas: "\<forall>j < length datos_finales.
        (extraer_enlace raw_datos_excel j (datos_finales ! j) = '''' \<longrightarrow>
           error_enlace_vacio (j + 2) \<in> set (fst ?v)) \<and>
        (extraer_enlace raw_datos_excel j (datos_finales ! j) \<noteq> '''' \<and>
         \<not> prefix ''P'' (extraer_enlace raw_datos_excel j (datos_finales ! j)) \<longrightarrow>
           error_enlace_sin_p (j + 2) \<in> set (fst ?v)) \<and>
        (extraer_enlace raw_datos_excel j (datos_finales ! j) \<noteq> '''' \<and>
         prefix ''P'' (extraer_enlace raw_datos_excel j (datos_finales ! j)) \<and>
         (\<exists>i < j. extraer_enlace raw_datos_excel i (datos_finales ! i) =
                  extraer_enlace raw_datos_excel j (datos_finales ! j)) \<longrightarrow>
           (\<exists>f1. error_enlace_repetido f1 (j + 2)
                    (extraer_enlace raw_datos_excel j (datos_finales ! j)) \<in> set (fst ?v))) \<and>
        (uc_raw_de (datos_finales ! j) = '''' \<longrightarrow> error_uc_vacia (j + 2) \<in> set (fst ?v)) \<and>
        (uc_raw_de (datos_finales ! j) \<noteq> '''' \<and> \<not> prefix ''N'' (uc_raw_de (datos_finales ! j)) \<longrightarrow>
           error_uc_sin_n (j + 2) \<in> set (fst ?v))"
  proof (intro allI impI conjI)
    fix j assume j: "j < length datos_finales"
    {
      assume "extraer_enlace raw_datos_excel j (datos_finales ! j) = ''''"
      from errores_en_filas(1) [OF j this] s
      show "error_enlace_vacio (j + 2) \<in> set (fst ?v)" by blast
    next
      assume "extraer_enlace raw_datos_excel j (datos_finales ! j) \<noteq> '''' \<and>
              \<not> prefix ''P'' (extraer_enlace raw_datos_excel j (datos_finales ! j))"
      then show "error_enlace_sin_p (j + 2) \<in> set (fst ?v)"
        using errores_en_filas(2) [OF j] s by blast
    next
      assume "extraer_enlace raw_datos_excel j (datos_finales ! j) \<noteq> '''' \<and>
         prefix ''P'' (extraer_enlace raw_datos_excel j (datos_finales ! j)) \<and>
         (\<exists>i < j. extraer_enlace raw_datos_excel i (datos_finales ! i) =
                  extraer_enlace raw_datos_excel j (datos_finales ! j))"
      then show "\<exists>f1. error_enlace_repetido f1 (j + 2)
                    (extraer_enlace raw_datos_excel j (datos_finales ! j)) \<in> set (fst ?v)"
        using errores_en_filas(3) [OF j] s by blast
    next
      assume "uc_raw_de (datos_finales ! j) = ''''"
      from errores_en_filas(4) [OF j this] s
      show "error_uc_vacia (j + 2) \<in> set (fst ?v)" by blast
    next
      assume "uc_raw_de (datos_finales ! j) \<noteq> '''' \<and> \<not> prefix ''N'' (uc_raw_de (datos_finales ! j))"
      then show "error_uc_sin_n (j + 2) \<in> set (fst ?v)"
        using errores_en_filas(5) [OF j] s by blast
    }
  qed
  show ?thesis
    apply (rule exI [of _ "fst ?v"])
    apply (rule exI [of _ "snd ?v"])
    using forma filas generar_con_errores [OF assms, of errores_datos raw_datos_excel tipo_archivo filename filepath fs]
          generar_sin_errores [OF assms, of errores_datos raw_datos_excel tipo_archivo filename filepath fs]
    by simp
qed

lemma validacion_ejemplo:
  "generar_archivo_txt_coordinado ''estructuras_nuevo'' ''nuevo.txt'' ''generated/nuevo.txt'' []
     datos_validacion_ej raw_validacion_ej [] =
     (\<lparr>exito = False, archivo_generado = None, ruta_archivo = None, total_registros = 0,
       errores_validacion =
         [error_enlace_repetido 2 3 ''P100'', error_enlace_vacio 4, error_uc_vacia 3, error_uc_sin_n 4,
          error_enlace_repetido 2 3 ''P100'', error_enlace_vacio 4, error_uc_vacia 3, error_uc_sin_n 4],
       mensaje = ''Se encontraron 8 errores de validaci'' @ [CHR 0xF3] @ ''n''\<rparr>, [])"
  by code_simp

lemma descripcion_ejemplo:
  "descripcion (error_enlace_repetido 2 3 ''P100'') =
     ''no pueden haber dos enlaces/identificadores iguales: fila 2 y fila 3 con '' @
     [CHR 0x27] @ ''P100'' @ [CHR 0x27]"
  by code_simp

lemma generacion_ejemplo:
  "generar_archivo_txt_coordinado ''estructuras_baja'' ''baja.txt'' ''generated/baja.txt'' []
     datos_validos_ej [] [] =
     (\<lparr>exito = True, archivo_generado = Some ''baja.txt'', ruta_archivo = Some ''generated/baja.txt'',
       total_registros = 2, errores_validacion = [],
       mensaje = ''Archivo baja.txt generado exitosamente con 2 registros''\<rparr>,
      [(''generated/baja.txt'',
        [unir ''|'' (get_encabezados_txt ''estructuras_baja''),
         ''|||ACTIVO||||||||||N3L75|||||P100|||||||'',
         ''|||||||||||||N1L80|||||P200|||||||''])])"
  by code_simp

theorem validacion_aborta_generacion_witness:
  "datos_validacion_ej \<noteq> [] \<and>
   (\<exists>errores.
      error_enlace_vacio 4 \<in> set errores \<and> error_uc_vacia 3 \<in> set errores \<and>
      error_uc_sin_n 4 \<in> set errores \<and>
      (\<exists>f1. error_enlace_repetido f1 3 ''P100'' \<in> set errores) \<and>
      generar_archivo_txt_coordinado ''estructuras_nuevo'' ''nuevo.txt'' ''generated/nuevo.txt'' []
        datos_validacion_ej raw_validacion_ej [] =
        (\<lparr>exito = False, archivo_generado = None, ruta_archivo = None, total_registros = 0,
          errores_validacion = errores,
          mensaje = ''Se encontraron '' @ str_nat (length errores) @
                    '' errores de validaci'' @ [CHR 0xF3] @ ''n''\<rparr>, []))"
proof -
  have n: "datos_validacion_ej \<noteq> []" and l: "length datos_validacion_ej = 3"
    by (simp_all add: datos_validacion_ej_def)
  have h: "extraer_enlace raw_validacion_ej 2 (datos_validacion_ej ! 2) = ''''"
    "uc_raw_de (datos_validacion_ej ! 1) = ''''"
    "uc_raw_de (datos_validacion_ej ! 2) = ''A1''"
    "extraer_enlace raw_validacion_ej 1 (datos_validacion_ej ! 1) = ''P100''"
    "extraer_enlace raw_validacion_ej 0 (datos_validacion_ej ! 0) = ''P100''"
    by code_simp+
  from validacion_aborta_generacion [OF n, of "[]" raw_validacion_ej "''estructuras_nuevo''"
         "''nuevo.txt''" "''generated/nuevo.txt''" "[]"]
  obtain errores registros where
    filas: "\<forall>j < length datos_validacion_ej.
        (extraer_enlace raw_validacion_ej j (datos_validacion_ej ! j) = '''' \<longrightarrow>
           error_enlace_vacio (j + 2) \<in> set errores) \<and>
        (extraer_enlace raw_validacion_ej j (datos_validacion_ej ! j) \<noteq> '''' \<and>
         \<not> prefix ''P'' (extraer_enlace raw_validacion_ej j (datos_validacion_ej ! j)) \<longrightarrow>
           error_enlace_sin_p (j + 2) \<in> set errores) \<and>
        (extraer_enlace raw_validacion_ej j (datos_validacion_ej ! j) \<noteq> '''' \<and>
         prefix ''P'' (extraer_enlace raw_validacion_ej j (datos_validacion_ej ! j)) \<and>
         (\<exists>i < j. extraer_enlace raw_validacion_ej i (datos_validacion_ej ! i) =
                  extraer_enlace raw_validacion_ej j (datos_validacion_ej ! j)) \<longrightarrow>
           (\<exists>f1. error_enlace_repetido f1 (j + 2)
                    (extraer_enlace raw_validacion_ej j (datos_validacion_ej ! j)) \<in> set errores)) \<and>
        (uc_raw_de (datos_validacion_ej ! j) = '''' \<longrightarrow> error_uc_vacia (j + 2) \<in> set errores) \<and>
        (uc_raw_de (datos_validacion_ej ! j) \<noteq> '''' \<and>
         \<not> prefix ''N'' (uc_raw_de (datos_validacion_ej ! j)) \<longrightarrow>
           error_uc_sin_n (j + 2) \<in> set errores)"
    and aborta: "errores \<noteq> [] \<longrightarrow>
        generar_archivo_txt_coordinado ''estructuras_nuevo'' ''nuevo.txt'' ''generated/nuevo.txt'' []
          datos_validacion_ej raw_validacion_ej [] =
          (\<lparr>exito = False, archivo_generado = None, ruta_archivo = None, total_registros = 0,
            errores_validacion = errores,
            mensaje = ''Se encontraron '' @ str_nat (length errores) @
                      '' errores de validaci'' @ [CHR 0xF3] @ ''n''\<rparr>, [])"
    by blast
  from filas [rule_format, of 2] l h have e2: "error_enlace_vacio 4 \<in> set errores"
    "error_uc_sin_n 4 \<in> set errores"
    by simp_all
  have "\<exists>i < (1::nat). extraer_enlace raw_validacion_ej i (datos_validacion_ej ! i) = ''P100''"
    using h(5) by blast
  with filas [rule_format, of 1] l h have e1: "error_uc_vacia 3 \<in> set errores"
    "\<exists>f1. error_enlace_repetido f1 3 ''P100'' \<in> set errores"
    by (simp_all add: numeral_3_eq_3)
  from e2(1) have "errores \<noteq> []" by auto
  with aborta e1 e2 n show ?thesis by blast
qed

end
